theory Spec2Isabelle
  imports Main "HOL-Library.Sublist"
begin

section \<open>JavaScript values\<close>

text \<open>
  The tracker is TypeScript that runs as JavaScript. A JavaScript number is an IEEE
  double; the embedding keeps the number type abstract (the type variable \<open>'n\<close>, with
  the literal \<open>1\<close> of the source as \<open>1\<close>) and takes the three primitives of the
  language that depend on the representation from a \<open>host\<close> record: the truth value of
  a number, \<open>Number::toString\<close> and \<open>StringToNumber\<close>. Strings are byte strings: the
  UTF-8 encoding of the JavaScript string.
\<close>

datatype 'n jsval =
    JUndefined | JNull | JBoolean bool | JNumber 'n | JString string
  | JObject | JArray | JFunction

record 'n host =
  truthy_number :: "'n \<Rightarrow> bool"
  NumberToString :: "'n \<Rightarrow> string"
  StringToNumber :: "string \<Rightarrow> 'n"

text \<open>\<open>ToBoolean\<close>: what \<open>v && ...\<close> and \<open>!v\<close> test.\<close>

fun ToBoolean :: "'n host \<Rightarrow> 'n jsval \<Rightarrow> bool" where
  "ToBoolean h JUndefined = False"
| "ToBoolean h JNull = False"
| "ToBoolean h (JBoolean b) = b"
| "ToBoolean h (JNumber n) = truthy_number h n"
| "ToBoolean h (JString s) = (s \<noteq> [])"
| "ToBoolean h JObject = True"
| "ToBoolean h JArray = True"
| "ToBoolean h JFunction = True"

fun typeof :: "'n jsval \<Rightarrow> string" where
  "typeof JUndefined = ''undefined''"
| "typeof JNull = ''object''"
| "typeof (JBoolean b) = ''boolean''"
| "typeof (JNumber n) = ''number''"
| "typeof (JString s) = ''string''"
| "typeof JObject = ''object''"
| "typeof JArray = ''object''"
| "typeof JFunction = ''function''"

text \<open>
  \<open>Number(v)\<close>, for the two types of value the constructor lets through to it.
\<close>

fun Number_of :: "'n host \<Rightarrow> 'n jsval \<Rightarrow> 'n option" where
  "Number_of h (JNumber n) = Some n"
| "Number_of h (JString s) = Some (StringToNumber h s)"
| "Number_of h v = None"

text \<open>
  The values of a tracking option, \<open>number | string | undefined\<close> in
  \<open>MatomoTrackOptions\<close>.
\<close>

datatype 'n optval = Undef | Num 'n | Str string

fun jsval_of :: "'n optval \<Rightarrow> 'n jsval" where
  "jsval_of Undef = JUndefined"
| "jsval_of (Num n) = JNumber n"
| "jsval_of (Str s) = JString s"

definition truthy :: "'n host \<Rightarrow> 'n optval \<Rightarrow> bool" where
  "truthy h v = ToBoolean h (jsval_of v)"

text \<open>\<open>String(value)\<close>.\<close>

fun String_of :: "'n host \<Rightarrow> 'n optval \<Rightarrow> string" where
  "String_of h Undef = ''undefined''"
| "String_of h (Num n) = NumberToString h n"
| "String_of h (Str s) = s"

section \<open>Plain objects\<close>

text \<open>
  A plain object is the list of its own enumerable string-keyed properties in the order
  \<open>Object.entries\<close> and the spread syntax enumerate them: array-index keys first, by
  ascending value, then the other keys in the order of their creation.
\<close>

type_synonym 'v props = "(string \<times> 'v) list"

definition has_own :: "string \<Rightarrow> 'v props \<Rightarrow> bool" where
  "has_own k ps = (map_of ps k \<noteq> None)"

text \<open>
  \<open>o.k\<close> for a key that \<open>Object.prototype\<close> does not define (the source reads
  \<open>url\<close>, \<open>e_c\<close>, \<open>e_a\<close>, \<open>c_n\<close> and \<open>c_p\<close>): the own property, or \<open>undefined\<close>.
\<close>

definition get_prop :: "string \<Rightarrow> 'n optval props \<Rightarrow> 'n optval" where
  "get_prop k ps = (case map_of ps k of None \<Rightarrow> Undef | Some v \<Rightarrow> v)"

definition is_digit :: "char \<Rightarrow> bool" where
  "is_digit c = (48 \<le> (of_char c :: nat) \<and> (of_char c :: nat) \<le> 57)"

definition decimal :: "string \<Rightarrow> nat" where
  "decimal s = foldl (\<lambda>n c. 10 * n + ((of_char c :: nat) - 48)) 0 s"

text \<open>An array index: the canonical decimal numeral of an integer below \<open>2^32 - 1\<close>.\<close>

definition is_array_index :: "string \<Rightarrow> bool" where
  "is_array_index s =
     (s \<noteq> [] \<and> list_all is_digit s \<and> (s = ''0'' \<or> hd s \<noteq> CHR ''0'')
      \<and> decimal s < 4294967295)"

text \<open>Whether a new key \<open>k\<close> is enumerated before the existing key \<open>k'\<close>.\<close>

definition precedes :: "string \<Rightarrow> string \<Rightarrow> bool" where
  "precedes k k' =
     (is_array_index k \<and> (if is_array_index k' then decimal k < decimal k' else True))"

fun insert_own :: "string \<Rightarrow> 'v \<Rightarrow> 'v props \<Rightarrow> 'v props" where
  "insert_own k v [] = [(k, v)]"
| "insert_own k v ((k', v') # ps) =
     (if precedes k k' then (k, v) # (k', v') # ps else (k', v') # insert_own k v ps)"

definition replace_own :: "string \<Rightarrow> 'v \<Rightarrow> 'v props \<Rightarrow> 'v props" where
  "replace_own k v ps = map (\<lambda>(k', v'). (k', if k' = k then v else v')) ps"

text \<open>
  \<open>CreateDataProperty\<close>, what an object literal and the spread syntax do for each
  property: the value of an existing key is replaced where it stands, a new key is added.
\<close>

definition define_own :: "string \<Rightarrow> 'v \<Rightarrow> 'v props \<Rightarrow> 'v props" where
  "define_own k v ps = (if has_own k ps then replace_own k v ps else insert_own k v ps)"

text \<open>
  The assignment \<open>o[k] = v\<close> of a primitive value \<open>v\<close> to a plain object. It differs
  from \<open>CreateDataProperty\<close> at one key: \<open>__proto__\<close>, when the object has no own
  property of that name, reaches the setter that \<open>Object.prototype\<close> inherits to every
  plain object, and the setter ignores a value that is neither an object nor \<open>null\<close>.
\<close>

definition assign :: "string \<Rightarrow> 'v \<Rightarrow> 'v props \<Rightarrow> 'v props" where
  "assign k v ps =
     (if k = ''__proto__'' \<and> \<not> has_own k ps then ps else define_own k v ps)"

text \<open>\<open>{...o}\<close>: a new object with the own enumerable properties of \<open>o\<close>.\<close>

definition spread :: "'v props \<Rightarrow> 'v props" where
  "spread ps = foldl (\<lambda>acc (k, v). define_own k v acc) [] ps"

section \<open>The store\<close>

text \<open>
  The option objects are shared with the caller and written in place, so they live in a
  store: a reference is an address, \<open>next_ref\<close> the next address to allocate.
\<close>

type_synonym ref = nat

record 'n heap =
  objects :: "ref \<Rightarrow> 'n optval props"
  next_ref :: ref

definition alloc :: "'n optval props \<Rightarrow> 'n heap \<Rightarrow> ref \<times> 'n heap" where
  "alloc ob s =
     (next_ref s, s\<lparr>objects := (objects s)(next_ref s := ob), next_ref := Suc (next_ref s)\<rparr>)"

definition write_obj :: "ref \<Rightarrow> 'n optval props \<Rightarrow> 'n heap \<Rightarrow> 'n heap" where
  "write_obj r ob s = s\<lparr>objects := (objects s)(r := ob)\<rparr>"

section \<open>Serialization\<close>

text \<open>
  \<open>optionValuesToString\<close> (both \<open>index.ts\<close> and \<open>src/index.ts\<close>): a reduce over
  \<open>Object.entries(options)\<close> that assigns \<open>acc[key] = String(value)\<close> into an
  accumulator that starts as \<open>{}\<close>.
\<close>

definition optionValuesToString :: "'n host \<Rightarrow> 'n optval props \<Rightarrow> string props" where
  "optionValuesToString h options =
     foldl (\<lambda>acc (key, val). if val \<noteq> Undef then assign key (String_of h val) acc else acc)
       [] options"

text \<open>
  \<open>new URLSearchParams(record).toString()\<close>: the application/x-www-form-urlencoded
  serializer of the URL standard. A byte is kept when it is an ASCII letter, a digit or
  one of \<open>* - . _\<close>; a space becomes \<open>+\<close>; any other byte is \<open>%\<close> and two upper-case
  hexadecimal digits. Name and value are joined by \<open>=\<close>, the pairs by \<open>&\<close>.
\<close>

definition unreserved :: "char \<Rightarrow> bool" where
  "unreserved c =
     (let n = (of_char c :: nat)
      in (48 \<le> n \<and> n \<le> 57) \<or> (65 \<le> n \<and> n \<le> 90) \<or> (97 \<le> n \<and> n \<le> 122)
         \<or> n = 42 \<or> n = 45 \<or> n = 46 \<or> n = 95)"

definition hex_upper :: "nat \<Rightarrow> char" where
  "hex_upper n = ''0123456789ABCDEF'' ! (n mod 16)"

definition percent_encode :: "char \<Rightarrow> string" where
  "percent_encode c =
     (if c = CHR '' '' then ''+''
      else if unreserved c then [c]
      else [CHR ''%'', hex_upper ((of_char c :: nat) div 16), hex_upper (of_char c :: nat)])"

definition urlencode :: "string \<Rightarrow> string" where
  "urlencode s = concat (map percent_encode s)"

fun intercalate :: "'a list \<Rightarrow> 'a list list \<Rightarrow> 'a list" where
  "intercalate sep [] = []"
| "intercalate sep [x] = x"
| "intercalate sep (x # y # ys) = x @ sep @ intercalate sep (y # ys)"

definition URLSearchParams_toString :: "string props \<Rightarrow> string" where
  "URLSearchParams_toString ps =
     intercalate ''&'' (map (\<lambda>(k, v). urlencode k @ ''='' @ urlencode v) ps)"

text \<open>
  \<open>JSON.stringify({requests: [...]})\<close> for an array of strings. \<open>QuoteJSONString\<close>
  escapes the double quote, the backslash and the control characters below 0x20.
\<close>

definition hex_lower :: "nat \<Rightarrow> char" where
  "hex_lower n = ''0123456789abcdef'' ! (n mod 16)"

definition JSON_escape :: "char \<Rightarrow> string" where
  "JSON_escape c =
     (let n = (of_char c :: nat)
      in if n = 34 then [CHR 0x5C, CHR 0x22]
         else if n = 92 then [CHR 0x5C, CHR 0x5C]
         else if n = 8 then [CHR 0x5C, CHR ''b'']
         else if n = 9 then [CHR 0x5C, CHR ''t'']
         else if n = 10 then [CHR 0x5C, CHR ''n'']
         else if n = 12 then [CHR 0x5C, CHR ''f'']
         else if n = 13 then [CHR 0x5C, CHR ''r'']
         else if n < 32 then
           [CHR 0x5C, CHR ''u'', CHR ''0'', CHR ''0'', hex_lower (n div 16), hex_lower n]
         else [c])"

definition JSON_quote :: "string \<Rightarrow> string" where
  "JSON_quote s = CHR 0x22 # concat (map JSON_escape s) @ [CHR 0x22]"

definition JSON_stringify_requests :: "string list \<Rightarrow> string" where
  \<open>JSON_stringify_requests rs =
     ''{"requests":['' @ intercalate '','' (map JSON_quote rs) @ '']}''\<close>

section \<open>The tracker\<close>

record 'n tracker =
  siteId :: 'n
  trackerUrl :: string

text \<open>The class of \<open>index.ts\<close> has one more field.\<close>

record 'n legacy_tracker = "'n tracker" +
  usesHTTPS :: bool

text \<open>
  What a failed argument check throws: \<open>invariant(cond, message)\<close> of tiny-invariant
  in \<open>src/index.ts\<close>, \<open>assert.ok(cond, message)\<close> and \<open>assert.fail(message)\<close> of
  Node's assert module in \<open>index.ts\<close>, each with the message of the call; and the
  \<open>TypeError\<close> of the language for a property assignment on \<open>undefined\<close> or on a
  primitive string (class bodies are strict code).
\<close>

datatype error = Invariant string | AssertionError string | TypeError

definition endsWith :: "string \<Rightarrow> string \<Rightarrow> bool" where
  "endsWith s x = (drop (length s - length x) s = x)"

definition startsWith :: "string \<Rightarrow> string \<Rightarrow> bool" where
  "startsWith s x = (take (length x) s = x)"

text \<open>The message of the third check of the constructor.\<close>

definition suffix_message :: string where
  \<open>suffix_message = ''A tracker URL must end with "matomo.php" or "piwik.php"''\<close>

text \<open>
  The constructor of \<open>src/index.ts\<close>. The last two branches of the case distinctions
  are never reached: the checks before them leave a non-empty string as the URL and a
  number or a string as the site identifier.
\<close>

definition MatomoTracker ::
  "'n host \<Rightarrow> 'n jsval \<Rightarrow> 'n jsval \<Rightarrow> 'n jsval \<Rightarrow> error + 'n tracker" where
  "MatomoTracker h sid turl noURLValidation =
     (if \<not> (ToBoolean h sid \<and> (typeof sid = ''number'' \<or> typeof sid = ''string''))
      then Inl (Invariant ''Matomo siteId required.'')
      else if \<not> (ToBoolean h turl \<and> typeof turl = ''string'')
      then Inl (Invariant ''Matomo tracker URL required, e.g. http://example.com/matomo.php'')
      else case turl of
        JString u \<Rightarrow>
          if \<not> ToBoolean h noURLValidation
             \<and> \<not> (endsWith u ''matomo.php'' \<or> endsWith u ''piwik.php'')
          then Inl (Invariant suffix_message)
          else (case Number_of h sid of
                  Some n \<Rightarrow> Inr \<lparr>siteId = n, trackerUrl = u\<rparr>
                | None \<Rightarrow> Inl (Invariant ''Matomo siteId required.''))
      | _ \<Rightarrow> Inl (Invariant ''Matomo tracker URL required, e.g. http://example.com/matomo.php''))"

text \<open>The constructor of \<open>index.ts\<close>.\<close>

definition legacy_MatomoTracker ::
  "'n host \<Rightarrow> 'n jsval \<Rightarrow> 'n jsval \<Rightarrow> 'n jsval \<Rightarrow> error + 'n legacy_tracker" where
  "legacy_MatomoTracker h sid turl noURLValidation =
     (if \<not> (ToBoolean h sid \<and> (typeof sid = ''number'' \<or> typeof sid = ''string''))
      then Inl (AssertionError ''Matomo siteId required.'')
      else if \<not> (ToBoolean h turl \<and> typeof turl = ''string'')
      then Inl (AssertionError ''Matomo tracker URL required, e.g. http://example.com/matomo.php'')
      else case turl of
        JString u \<Rightarrow>
          if \<not> ToBoolean h noURLValidation
             \<and> \<not> (endsWith u ''matomo.php'' \<or> endsWith u ''piwik.php'')
          then Inl (AssertionError suffix_message)
          else (case Number_of h sid of
                  Some n \<Rightarrow>
                    Inr \<lparr>siteId = n, trackerUrl = u, usesHTTPS = startsWith u ''https''\<rparr>
                | None \<Rightarrow> Inl (AssertionError ''Matomo siteId required.''))
      | _ \<Rightarrow>
          Inl (AssertionError ''Matomo tracker URL required, e.g. http://example.com/matomo.php''))"

section \<open>The network and the error listeners\<close>

record request =
  http_method :: string
  url :: string
  headers :: "(string \<times> string) list"
  payload :: "string option"

text \<open>
  A response, as far as the tracker reads it: \<open>response.ok\<close>, \<open>response.status\<close> and,
  in \<open>trackBulk\<close> of \<open>index.ts\<close>, \<open>await response.text()\<close>, which yields the body
  (\<open>Inr\<close>) or throws (\<open>Inl\<close>, the message of the error).
\<close>

record 'n response =
  ok :: bool
  status :: 'n
  body_text :: "string + string"

text \<open>\<open>await fetch(...)\<close> yields a response or throws an error with a message.\<close>

datatype 'n fetch_result = Responds "'n response" | Throws string

text \<open>
  The environment of one call: what \<open>fetch\<close> does with a request, and
  \<open>this.listeners('error').length\<close> at the time the tracker reads it. The listeners are
  taken to return normally.
\<close>

record 'n env =
  fetch :: "request \<Rightarrow> 'n fetch_result"
  listeners :: nat

text \<open>How the promise of an \<open>async\<close> method settles; \<open>None\<close> is \<open>undefined\<close>.\<close>

datatype 'n completion = Resolved "'n response option" | Rejected error

text \<open>
  What a call did: how it settled, the requests it passed to \<open>fetch\<close>, the events it
  emitted (name and argument), the bodies it passed to the callback of \<open>trackBulk\<close>,
  and the store it left.
\<close>

record 'n outcome =
  result :: "'n completion"
  requests :: "request list"
  emitted :: "(string \<times> 'n jsval) list"
  called_back :: "string list"
  final :: "'n heap"

definition rejected :: "'n heap \<Rightarrow> error \<Rightarrow> 'n outcome" where
  "rejected s e =
     \<lparr>result = Rejected e, requests = [], emitted = [], called_back = [], final = s\<rparr>"

text \<open>\<open>if (this.listeners('error').length) this.emit('error', arg)\<close>.\<close>

definition emit_error :: "'n env \<Rightarrow> 'n jsval \<Rightarrow> (string \<times> 'n jsval) list" where
  "emit_error e arg = (if listeners e \<noteq> 0 then [(''error'', arg)] else [])"

text \<open>
  The \<open>try\<close> block that ends \<open>track\<close> in both files and \<open>trackBulk\<close> in
  \<open>src/index.ts\<close>: one \<open>fetch\<close>, then the response is returned, or its status or the
  message of the error goes to the listeners and nothing is returned.
\<close>

definition dispatch :: "'n env \<Rightarrow> 'n heap \<Rightarrow> request \<Rightarrow> 'n outcome" where
  "dispatch e s req =
     (case fetch e req of
        Responds resp \<Rightarrow>
          if \<not> ok resp
          then \<lparr>result = Resolved None, requests = [req],
                emitted = emit_error e (JNumber (status resp)), called_back = [], final = s\<rparr>
          else \<lparr>result = Resolved (Some resp), requests = [req], emitted = [],
                called_back = [], final = s\<rparr>
      | Throws msg \<Rightarrow>
          \<lparr>result = Resolved None, requests = [req],
           emitted = emit_error e (JString msg), called_back = [], final = s\<rparr>)"

definition GET :: "string \<Rightarrow> request" where
  "GET u = \<lparr>http_method = ''GET'', url = u, headers = [], payload = None\<rparr>"

definition POST_json :: "string \<Rightarrow> string \<Rightarrow> request" where
  "POST_json u b =
     \<lparr>http_method = ''POST'', url = u, headers = [(''Content-Type'', ''application/json'')],
      payload = Some b\<rparr>"

section \<open>The operations of \<open>src/index.ts\<close>\<close>

text \<open>
  The argument of \<open>track\<close> and its variants: an options object, a bare URL string, or
  nothing.
\<close>

datatype options = Options ref | Url string | Missing

text \<open>\<open>options.idsite = this.siteId; options.rec = 1\<close>, written to the object itself.\<close>

definition inject :: "'n::one \<Rightarrow> 'n optval props \<Rightarrow> 'n optval props" where
  "inject sid ob = assign ''rec'' (Num 1) (assign ''idsite'' (Num sid) ob)"

definition query_of :: "'n host \<Rightarrow> 'n optval props \<Rightarrow> string" where
  "query_of h ob = URLSearchParams_toString (optionValuesToString h ob)"

definition track ::
  "'n::one host \<Rightarrow> ('n, 'z) tracker_scheme \<Rightarrow> 'n env \<Rightarrow> 'n heap \<Rightarrow> options \<Rightarrow> 'n outcome" where
  "track h t e s opts =
     (case opts of
        Options r \<Rightarrow>
          (let s1 = write_obj r (inject (siteId t) (objects s r)) s;
               requestUrl = trackerUrl t @ ''?'' @ query_of h (objects s1 r)
           in dispatch e s1 (GET requestUrl))
      | Url u \<Rightarrow> rejected s TypeError
      | Missing \<Rightarrow> rejected s TypeError)"

text \<open>\<open>if (typeof options === 'string') options = {url: options}\<close>.\<close>

definition canonical :: "options \<Rightarrow> 'n heap \<Rightarrow> options \<times> 'n heap" where
  "canonical opts s =
     (case opts of
        Url u \<Rightarrow> (let (r, s1) = alloc [(''url'', Str u)] s in (Options r, s1))
      | _ \<Rightarrow> (opts, s))"

text \<open>\<open>options && options.k\<close> as a condition.\<close>

definition has_truthy :: "'n host \<Rightarrow> 'n heap \<Rightarrow> options \<Rightarrow> string \<Rightarrow> bool" where
  "has_truthy h s opts k =
     (case opts of
        Options r \<Rightarrow> truthy h (get_prop k (objects s r))
      | Url u \<Rightarrow> False
      | Missing \<Rightarrow> False)"

definition trackUrl ::
  "'n::one host \<Rightarrow> ('n, 'z) tracker_scheme \<Rightarrow> 'n env \<Rightarrow> 'n heap \<Rightarrow> options \<Rightarrow> 'n outcome" where
  "trackUrl h t e s opts =
     (let (opts1, s1) = canonical opts s
      in if \<not> has_truthy h s1 opts1 ''url''
         then rejected s1 (Invariant ''URL to be tracked must be specified.'')
         else track h t e s1 opts1)"

text \<open>\<open>this.track({...options, ca: 1})\<close>: a new object goes to \<open>track\<close>.\<close>

definition track_custom_action ::
  "'n::one host \<Rightarrow> ('n, 'z) tracker_scheme \<Rightarrow> 'n env \<Rightarrow> 'n heap \<Rightarrow> ref \<Rightarrow> 'n outcome" where
  "track_custom_action h t e s r =
     (let (r1, s1) = alloc (define_own ''ca'' (Num 1) (spread (objects s r))) s
      in track h t e s1 (Options r1))"

definition trackEvent ::
  "'n::one host \<Rightarrow> ('n, 'z) tracker_scheme \<Rightarrow> 'n env \<Rightarrow> 'n heap \<Rightarrow> options \<Rightarrow> 'n outcome" where
  "trackEvent h t e s opts =
     (if \<not> (has_truthy h s opts ''e_c'' \<and> has_truthy h s opts ''e_a'')
      then rejected s (Invariant ''Event category and action must be specified.'')
      else case opts of
             Options r \<Rightarrow> track_custom_action h t e s r
           | _ \<Rightarrow> rejected s (Invariant ''Event category and action must be specified.''))"

definition trackContent ::
  "'n::one host \<Rightarrow> ('n, 'z) tracker_scheme \<Rightarrow> 'n env \<Rightarrow> 'n heap \<Rightarrow> options \<Rightarrow> 'n outcome" where
  "trackContent h t e s opts =
     (if \<not> (has_truthy h s opts ''c_n'' \<and> has_truthy h s opts ''c_p'')
      then rejected s (Invariant ''Content name and piece must be specified.'')
      else case opts of
             Options r \<Rightarrow> track_custom_action h t e s r
           | _ \<Rightarrow> rejected s (Invariant ''Content name and piece must be specified.''))"

text \<open>
  The callback of \<open>eventItems.map\<close> in \<open>trackBulk\<close>, item after item: each object is
  written in place and serialized as it then stands.
\<close>

fun bulk_queries ::
  "'n::one host \<Rightarrow> 'n \<Rightarrow> ref list \<Rightarrow> 'n heap \<Rightarrow> string list \<times> 'n heap" where
  "bulk_queries h sid [] s = ([], s)"
| "bulk_queries h sid (r # rs) s =
     (let s1 = write_obj r (inject sid (objects s r)) s;
          q = ''?'' @ query_of h (objects s1 r);
          (qs, s2) = bulk_queries h sid rs s1
      in (q # qs, s2))"

text \<open>
  \<open>trackBulk\<close>; the argument is the array of the references of the items, or \<open>None\<close>
  when the caller passes none. \<open>this.siteId\<close> is compared with \<open>undefined\<close> and
  \<open>null\<close> as the value it is, a number.
\<close>

definition trackBulk ::
  "'n::one host \<Rightarrow> ('n, 'z) tracker_scheme \<Rightarrow> 'n env \<Rightarrow> 'n heap \<Rightarrow> ref list option
     \<Rightarrow> 'n outcome" where
  "trackBulk h t e s eventItems =
     (case eventItems of
        None \<Rightarrow> rejected s (Invariant ''Events require at least one.'')
      | Some items \<Rightarrow>
          if \<not> (length items > 0)
          then rejected s (Invariant ''Events require at least one.'')
          else if \<not> (JNumber (siteId t) \<noteq> JUndefined \<and> JNumber (siteId t) \<noteq> JNull)
          then rejected s (Invariant ''siteId must be specified.'')
          else (let (qs, s1) = bulk_queries h (siteId t) items s
                in dispatch e s1 (POST_json (trackerUrl t) (JSON_stringify_requests qs))))"

section \<open>The operations of \<open>index.ts\<close>\<close>

definition legacy_track ::
  "'n::one host \<Rightarrow> ('n, 'z) tracker_scheme \<Rightarrow> 'n env \<Rightarrow> 'n heap \<Rightarrow> options \<Rightarrow> 'n outcome" where
  "legacy_track h t e s opts =
     (let (opts1, s1) = canonical opts s
      in case opts1 of
           Options r \<Rightarrow>
             if \<not> truthy h (get_prop ''url'' (objects s1 r))
             then rejected s1 (AssertionError ''URL to be tracked must be specified.'')
             else (let s2 = write_obj r (inject (siteId t) (objects s1 r)) s1;
                       requestUrl = trackerUrl t @ ''?'' @ query_of h (objects s2 r)
                   in dispatch e s2 (GET requestUrl))
         | _ \<Rightarrow> rejected s1 (AssertionError ''URL to be tracked must be specified.''))"

text \<open>
  \<open>trackBulk\<close> of \<open>index.ts\<close> reads the body of a successful response and passes it to
  the callback, when the caller gave one; it returns nothing on every path.
\<close>

definition legacy_dispatch :: "'n env \<Rightarrow> 'n heap \<Rightarrow> bool \<Rightarrow> request \<Rightarrow> 'n outcome" where
  "legacy_dispatch e s callback req =
     (case fetch e req of
        Responds resp \<Rightarrow>
          if \<not> ok resp
          then \<lparr>result = Resolved None, requests = [req],
                emitted = emit_error e (JNumber (status resp)), called_back = [], final = s\<rparr>
          else (case body_text resp of
                  Inr responseData \<Rightarrow>
                    \<lparr>result = Resolved None, requests = [req], emitted = [],
                     called_back = (if callback then [responseData] else []), final = s\<rparr>
                | Inl msg \<Rightarrow>
                    \<lparr>result = Resolved None, requests = [req],
                     emitted = emit_error e (JString msg), called_back = [], final = s\<rparr>)
      | Throws msg \<Rightarrow>
          \<lparr>result = Resolved None, requests = [req],
           emitted = emit_error e (JString msg), called_back = [], final = s\<rparr>)"

definition legacy_trackBulk ::
  "'n::one host \<Rightarrow> ('n, 'z) tracker_scheme \<Rightarrow> 'n env \<Rightarrow> 'n heap \<Rightarrow> ref list option \<Rightarrow> bool
     \<Rightarrow> 'n outcome" where
  "legacy_trackBulk h t e s eventItems callback =
     (case eventItems of
        None \<Rightarrow> rejected s (AssertionError ''Events require at least one.'')
      | Some items \<Rightarrow>
          if \<not> (length items > 0)
          then rejected s (AssertionError ''Events require at least one.'')
          else if \<not> (JNumber (siteId t) \<noteq> JUndefined \<and> JNumber (siteId t) \<noteq> JNull)
          then rejected s (AssertionError ''siteId must be specified.'')
          else (let (qs, s1) = bulk_queries h (siteId t) items s
                in legacy_dispatch e s1 callback
                     (POST_json (trackerUrl t) (JSON_stringify_requests qs))))"

section \<open>A host and an environment for concrete calls\<close>

text \<open>
  To run the model on a concrete call, the numbers are NaN and the integers. \<open>show_int\<close>
  is \<open>Number::toString\<close> on the integers below \<open>10^21\<close> in magnitude; \<open>read_num\<close> reads
  an unsigned decimal numeral and takes any other string to NaN (JavaScript reads more
  numerals than these).
\<close>

datatype num = NaN | Integer int

instantiation num :: "{zero,one}"
begin

definition zero_num :: num where "zero_num = Integer 0"

definition one_num :: num where "one_num = Integer 1"

instance ..

end

fun digits :: "nat \<Rightarrow> string" where
  "digits n =
     (if n < 10 then [char_of (48 + n)] else digits (n div 10) @ [char_of (48 + n mod 10)])"

definition show_int :: "int \<Rightarrow> string" where
  "show_int i = (if i < 0 then ''-'' @ digits (nat (- i)) else digits (nat i))"

fun show_num :: "num \<Rightarrow> string" where
  "show_num NaN = ''NaN''"
| "show_num (Integer i) = show_int i"

fun truthy_num :: "num \<Rightarrow> bool" where
  "truthy_num NaN = False"
| "truthy_num (Integer i) = (i \<noteq> 0)"

definition read_num :: "string \<Rightarrow> num" where
  "read_num s = (if s \<noteq> [] \<and> list_all is_digit s then Integer (int (decimal s)) else NaN)"

definition example_host :: "num host" where
  "example_host =
     \<lparr>truthy_number = truthy_num, NumberToString = show_num, StringToNumber = read_num\<rparr>"

text \<open>A server that answers every request with the given status and an empty body.\<close>

definition answers :: "int \<Rightarrow> nat \<Rightarrow> num env" where
  "answers code n =
     \<lparr>fetch = (\<lambda>req. Responds \<lparr>ok = (200 \<le> code \<and> code \<le> 299), status = Integer code,
                                 body_text = Inr []\<rparr>),
      listeners = n\<rparr>"

text \<open>A network on which every \<open>fetch\<close> throws.\<close>

definition unreachable :: "string \<Rightarrow> nat \<Rightarrow> num env" where
  "unreachable msg n = \<lparr>fetch = (\<lambda>req. Throws msg), listeners = n\<rparr>"

text \<open>A store that holds the given objects at the addresses 0, 1, ...\<close>

definition store_of :: "'n optval props list \<Rightarrow> 'n heap" where
  "store_of obs =
     \<lparr>objects = (\<lambda>r. if r < length obs then obs ! r else []), next_ref = length obs\<rparr>"

text \<open>The tracker of the repository's tests, for either class.\<close>

definition example_tracker :: "num tracker" where
  "example_tracker = \<lparr>siteId = 1, trackerUrl = ''http://example.com/matomo.php''\<rparr>"

definition example_legacy_tracker :: "num legacy_tracker" where
  "example_legacy_tracker =
     \<lparr>siteId = 1, trackerUrl = ''http://example.com/matomo.php'', usesHTTPS = False\<rparr>"

text \<open>Every property named \<open>k\<close> of the list holds \<open>v\<close> (used in the proofs below).\<close>

definition all_bound :: "string \<Rightarrow> 'v \<Rightarrow> 'v props \<Rightarrow> bool" where
  "all_bound k v ps = list_all (\<lambda>(k', v'). k' \<noteq> k \<or> v' = v) ps"

section \<open>The constructor's contract, as the specification words it\<close>

text \<open>
  When the constructor fails according to the specification: the site identifier is
  missing or not a number or a string; or the endpoint is missing or not a non-empty
  string; or the bypass flag is falsy and the endpoint ends with neither file name.
\<close>

definition claimed_failure :: "'n host \<Rightarrow> 'n jsval \<Rightarrow> 'n jsval \<Rightarrow> 'n jsval \<Rightarrow> bool" where
  "claimed_failure h sid turl flag =
     ((typeof sid \<noteq> ''number'' \<and> typeof sid \<noteq> ''string'')
      \<or> (typeof turl \<noteq> ''string'' \<or> turl = JString [])
      \<or> (\<not> ToBoolean h flag
          \<and> (case turl of
                JString u \<Rightarrow> \<not> (suffix ''matomo.php'' u \<or> suffix ''piwik.php'' u)
              | _ \<Rightarrow> False)))"

text \<open>A site identifier that is a number or a string, and falsy: 0, NaN, the empty string.\<close>

definition falsy_identifier :: "'n host \<Rightarrow> 'n jsval \<Rightarrow> bool" where
  "falsy_identifier h sid =
     (case sid of JNumber n \<Rightarrow> \<not> truthy_number h n | JString x \<Rightarrow> x = [] | _ \<Rightarrow> False)"

section \<open>Properties of plain objects\<close>

lemma has_own_iff: "has_own k ps \<longleftrightarrow> k \<in> fst ` set ps"
  by (simp add: has_own_def map_of_eq_None_iff)

lemma map_of_replace_own:
  "map_of (replace_own k v ps) k' = (if k' = k \<and> has_own k ps then Some v else map_of ps k')"
  by (induction ps) (auto simp: replace_own_def has_own_def)

lemma map_of_insert_own:
  "\<not> has_own k ps \<Longrightarrow> map_of (insert_own k v ps) = (map_of ps)(k \<mapsto> v)"
  by (induction ps) (auto simp: has_own_def fun_eq_iff split: if_splits)

lemma map_of_define_own: "map_of (define_own k v ps) = (map_of ps)(k \<mapsto> v)"
  by (auto simp: define_own_def map_of_insert_own map_of_replace_own fun_eq_iff)

lemma has_own_define_own: "has_own k' (define_own k v ps) \<longleftrightarrow> k' = k \<or> has_own k' ps"
  by (simp add: has_own_def map_of_define_own)

lemma proto_neq: "''idsite'' \<noteq> ''__proto__''" "''rec'' \<noteq> ''__proto__''" "''ca'' \<noteq> ''__proto__''"
  by simp_all

lemma inject_define: "inject sid ob = define_own ''rec'' (Num 1) (define_own ''idsite'' (Num sid) ob)"
  by (simp add: inject_def assign_def)

lemma map_of_inject:
  "map_of (inject sid ob) = (map_of ob)(''idsite'' \<mapsto> Num sid, ''rec'' \<mapsto> Num 1)"
  by (simp add: inject_define map_of_define_own)

lemma get_prop_inject:
  "get_prop k (inject sid ob) =
     (if k = ''rec'' then Num 1 else if k = ''idsite'' then Num sid else get_prop k ob)"
  by (simp add: get_prop_def map_of_inject)

lemma all_bound_replace_same: "all_bound k v (replace_own k v ps)"
  by (induction ps) (auto simp: all_bound_def replace_own_def)

lemma all_bound_absent: "\<not> has_own k ps \<Longrightarrow> all_bound k v ps"
  by (induction ps) (auto simp: all_bound_def has_own_def split: if_splits)

lemma all_bound_insert: "all_bound k v ps \<Longrightarrow> all_bound k v (insert_own k v ps)"
  by (induction ps) (auto simp: all_bound_def)

lemma all_bound_insert_same: "\<not> has_own k ps \<Longrightarrow> all_bound k v (insert_own k v ps)"
  by (simp add: all_bound_absent all_bound_insert)

lemma all_bound_define_same: "all_bound k v (define_own k v ps)"
  by (simp add: define_own_def all_bound_replace_same all_bound_insert_same)

lemma all_bound_replace_other:
  "k' \<noteq> k \<Longrightarrow> all_bound k v ps \<Longrightarrow> all_bound k v (replace_own k' v' ps)"
  by (induction ps) (auto simp: all_bound_def replace_own_def)

lemma all_bound_insert_other:
  "k' \<noteq> k \<Longrightarrow> all_bound k v ps \<Longrightarrow> all_bound k v (insert_own k' v' ps)"
  by (induction ps) (auto simp: all_bound_def)

lemma all_bound_define_other:
  "k' \<noteq> k \<Longrightarrow> all_bound k v ps \<Longrightarrow> all_bound k v (define_own k' v' ps)"
  by (simp add: define_own_def all_bound_replace_other all_bound_insert_other)

lemma replace_own_id: "all_bound k v ps \<Longrightarrow> replace_own k v ps = ps"
  by (induction ps) (auto simp: all_bound_def replace_own_def)

lemma define_own_id: "has_own k ps \<Longrightarrow> all_bound k v ps \<Longrightarrow> define_own k v ps = ps"
  by (simp add: define_own_def replace_own_id)

lemma inject_idem: "inject sid (inject sid ob) = inject sid ob"
proof -
  let ?a = "define_own ''idsite'' (Num sid) ob"
  let ?b = "define_own ''rec'' (Num 1) ?a"
  have b: "inject sid ob = ?b" by (rule inject_define)
  have 1: "has_own ''idsite'' ?b" by (simp add: has_own_define_own)
  have 2: "all_bound ''idsite'' (Num sid) ?b"
    by (rule all_bound_define_other) (simp_all add: all_bound_define_same)
  have 3: "define_own ''idsite'' (Num sid) ?b = ?b" using 1 2 by (rule define_own_id)
  have 4: "has_own ''rec'' ?b" by (simp add: has_own_define_own)
  have 5: "all_bound ''rec'' (Num 1) ?b" by (rule all_bound_define_same)
  have 6: "define_own ''rec'' (Num 1) ?b = ?b" using 4 5 by (rule define_own_id)
  show ?thesis unfolding b inject_define[of sid ?b] 3 6 ..
qed

lemma bulk_queries_eq:
  "bulk_queries h sid items s =
     (map (\<lambda>r. ''?'' @ query_of h (inject sid (objects s r))) items,
      s\<lparr>objects := (\<lambda>r. if r \<in> set items then inject sid (objects s r) else objects s r)\<rparr>)"
proof (induction items arbitrary: s)
  case Nil
  show ?case by simp
next
  case (Cons r rs)
  let ?s1 = "write_obj r (inject sid (objects s r)) s"
  have obj1: "objects ?s1 = (objects s)(r := inject sid (objects s r))"
    by (simp add: write_obj_def)
  have q: "map (\<lambda>x. ''?'' @ query_of h (inject sid (objects ?s1 x))) rs
         = map (\<lambda>x. ''?'' @ query_of h (inject sid (objects s x))) rs"
    by (rule map_cong) (auto simp: obj1 inject_idem)
  have st: "?s1\<lparr>objects := (\<lambda>x. if x \<in> set rs then inject sid (objects ?s1 x) else objects ?s1 x)\<rparr>
          = s\<lparr>objects := (\<lambda>x. if x \<in> set (r # rs) then inject sid (objects s x) else objects s x)\<rparr>"
    by (auto simp: write_obj_def fun_eq_iff inject_idem)
  show ?case
    by (simp only: bulk_queries.simps Let_def Cons.IH q st split: prod.splits) (simp add: obj1)
qed

section \<open>Query strings need no JSON escape\<close>

lemma hex_upper_plain: "JSON_escape (hex_upper n) = [hex_upper n]"
proof -
  have all: "list_all (\<lambda>c. JSON_escape c = [c]) ''0123456789ABCDEF''"
    by (simp add: JSON_escape_def)
  have "n mod 16 < length ''0123456789ABCDEF''" by simp
  with all show ?thesis
    unfolding hex_upper_def list_all_length by blast
qed

lemma unreserved_plain: "unreserved c \<Longrightarrow> JSON_escape c = [c]"
  by (auto simp: unreserved_def JSON_escape_def Let_def)

lemma percent_encode_plain: "list_all (\<lambda>x. JSON_escape x = [x]) (percent_encode c)"
proof -
  have sp: "JSON_escape CHR ''+'' = ''+''" and pc: "JSON_escape CHR ''%'' = ''%''"
    by (simp_all add: JSON_escape_def)
  show ?thesis
    by (simp add: percent_encode_def sp pc hex_upper_plain unreserved_plain)
qed

lemma urlencode_plain: "list_all (\<lambda>x. JSON_escape x = [x]) (urlencode s)"
  by (induction s) (simp_all add: urlencode_def percent_encode_plain)

lemma intercalate_plain:
  "list_all P sep \<Longrightarrow> list_all (list_all P) xs \<Longrightarrow> list_all P (intercalate sep xs)"
  by (induction sep xs rule: intercalate.induct) simp_all

lemma URLSearchParams_plain:
  "list_all (\<lambda>x. JSON_escape x = [x]) (URLSearchParams_toString ps)"
proof -
  have amp: "list_all (\<lambda>x. JSON_escape x = [x]) ''&''" by (simp add: JSON_escape_def)
  have eq: "JSON_escape CHR ''='' = ''=''" by (simp add: JSON_escape_def)
  have each: "list_all (list_all (\<lambda>x. JSON_escape x = [x]))
                (map (\<lambda>(k, v). urlencode k @ ''='' @ urlencode v) ps)"
    by (induction ps) (auto simp: urlencode_plain eq)
  show ?thesis
    unfolding URLSearchParams_toString_def using amp each by (rule intercalate_plain)
qed

lemma concat_escape_plain:
  "list_all (\<lambda>x. JSON_escape x = [x]) s \<Longrightarrow> concat (map JSON_escape s) = s"
  by (induction s) simp_all

lemma JSON_quote_fragment:
  "JSON_quote (''?'' @ query_of h ob) = CHR 0x22 # ''?'' @ query_of h ob @ [CHR 0x22]"
proof -
  have "JSON_escape CHR ''?'' = ''?''" by (simp add: JSON_escape_def)
  then have "list_all (\<lambda>x. JSON_escape x = [x]) (''?'' @ query_of h ob)"
    by (simp add: query_of_def URLSearchParams_plain)
  then show ?thesis by (simp add: JSON_quote_def concat_escape_plain)
qed

section \<open>What the operations do\<close>

subsection \<open>The injection of \<open>idsite\<close> and \<open>rec\<close>\<close>

lemma dispatch_requests: "requests (dispatch e s req) = [req]"
  by (simp add: dispatch_def split: fetch_result.splits)

lemma dispatch_final: "final (dispatch e s req) = s"
  by (simp add: dispatch_def split: fetch_result.splits)

lemma legacy_dispatch_requests: "requests (legacy_dispatch e s cb req) = [req]"
  by (simp add: legacy_dispatch_def split: fetch_result.splits sum.splits)

lemma legacy_dispatch_final: "final (legacy_dispatch e s cb req) = s"
  by (simp add: legacy_dispatch_def split: fetch_result.splits sum.splits)

lemma rejected_simps:
  "requests (rejected s err) = []" "final (rejected s err) = s"
  "result (rejected s err) = Rejected err" "emitted (rejected s err) = []"
  "called_back (rejected s err) = []"
  by (simp_all add: rejected_def)

lemma objects_write_obj: "objects (write_obj r ob s) = (objects s)(r := ob)"
  by (simp add: write_obj_def)

lemma track_Options:
  "track h t e s (Options r) =
     dispatch e (write_obj r (inject (siteId t) (objects s r)) s)
       (GET (trackerUrl t @ ''?'' @ query_of h (inject (siteId t) (objects s r))))"
  by (simp add: track_def objects_write_obj)

lemma canonical_Options: "canonical (Options r) s = (Options r, s)"
  by (simp add: canonical_def)


lemma canonical_Missing: "canonical Missing s = (Missing, s)"
  by (simp add: canonical_def)

lemma legacy_track_canonical:
  "canonical opts s = (Options r, s1) \<Longrightarrow>
   legacy_track h t e s opts =
     (if truthy h (get_prop ''url'' (objects s1 r))
      then dispatch e (write_obj r (inject (siteId t) (objects s1 r)) s1)
             (GET (trackerUrl t @ ''?'' @ query_of h (inject (siteId t) (objects s1 r))))
      else rejected s1 (AssertionError ''URL to be tracked must be specified.''))"
  by (simp add: legacy_track_def objects_write_obj)

lemma trackUrl_canonical:
  "canonical opts s = (Options r, s1) \<Longrightarrow>
   trackUrl h t e s opts =
     (if truthy h (get_prop ''url'' (objects s1 r))
      then dispatch e (write_obj r (inject (siteId t) (objects s1 r)) s1)
             (GET (trackerUrl t @ ''?'' @ query_of h (inject (siteId t) (objects s1 r))))
      else rejected s1 (Invariant ''URL to be tracked must be specified.''))"
  by (simp add: trackUrl_def has_truthy_def track_Options)

lemma sent_injected:
  assumes "out = dispatch e (write_obj r (inject sid ob) s1) (GET (u @ ''?'' @ query_of h (inject sid ob)))"
  shows "requests out = [GET (u @ ''?'' @ query_of h (objects (final out) r))]
       \<and> get_prop ''idsite'' (objects (final out) r) = Num sid
       \<and> get_prop ''rec'' (objects (final out) r) = Num 1
       \<and> (\<forall>k. k = ''idsite'' \<or> k = ''rec''
              \<or> map_of (objects (final out) r) k = map_of ob k)"
  by (simp add: assms dispatch_requests dispatch_final objects_write_obj get_prop_inject
      map_of_inject)

text \<open>
  Claim C1. Whenever \<open>track\<close> (of either file) or \<open>trackUrl\<close> passes a request to
  \<open>fetch\<close>, for the options object \<open>r\<close> that the argument denotes (the argument itself,
  or the object \<open>{url: input}\<close> made from a bare string), the URL of the request is built
  from that object as the call leaves it: its \<open>idsite\<close> is the \<open>siteId\<close> of the tracker
  and its \<open>rec\<close> is 1, whatever the caller supplied for them, and every other key holds
  what it held before the call; for a bare string that is the one key \<open>url\<close>.
\<close>

theorem track_injects_idsite_and_rec:
  assumes "canonical opts s = (Options r, s1)"
    and "out = track h t e s opts \<or> out = legacy_track h t e s opts
         \<or> out = trackUrl h t e s opts"
    and "requests out \<noteq> []"
  shows "requests out = [GET (trackerUrl t @ ''?'' @ query_of h (objects (final out) r))]
       \<and> get_prop ''idsite'' (objects (final out) r) = Num (siteId t)
       \<and> get_prop ''rec'' (objects (final out) r) = Num 1
       \<and> (\<forall>k. k = ''idsite'' \<or> k = ''rec''
              \<or> map_of (objects (final out) r) k = map_of (objects s1 r) k)
       \<and> (\<forall>u. opts = Url u \<longrightarrow> objects s1 r = [(''url'', Str u)])"
proof -
  have bare: "\<forall>u. opts = Url u \<longrightarrow> objects s1 r = [(''url'', Str u)]"
    using assms(1) by (auto simp: canonical_def alloc_def)
  have "out = dispatch e (write_obj r (inject (siteId t) (objects s1 r)) s1)
          (GET (trackerUrl t @ ''?'' @ query_of h (inject (siteId t) (objects s1 r))))"
  proof -
    consider (a) "out = track h t e s opts" | (b) "out = legacy_track h t e s opts"
      | (c) "out = trackUrl h t e s opts"
      using assms(2) by blast
    then show ?thesis
    proof cases
      case a
      show ?thesis
      proof (cases opts)
        case (Options r')
        with assms(1) have "r' = r" "s1 = s" by (simp_all add: canonical_Options)
        with a Options show ?thesis by (simp add: track_Options)
      next
        case (Url u)
        with a assms(3) show ?thesis by (simp add: track_def rejected_simps)
      next
        case Missing
        with a assms(3) show ?thesis by (simp add: track_def rejected_simps)
      qed
    next
      case b
      with assms(3) legacy_track_canonical[OF assms(1), of h t e] show ?thesis
        by (simp add: rejected_simps split: if_splits)
    next
      case c
      with assms(3) trackUrl_canonical[OF assms(1), of h t e] show ?thesis
        by (simp add: rejected_simps split: if_splits)
    qed
  qed
  then have "requests out = [GET (trackerUrl t @ ''?'' @ query_of h (objects (final out) r))]
       \<and> get_prop ''idsite'' (objects (final out) r) = Num (siteId t)
       \<and> get_prop ''rec'' (objects (final out) r) = Num 1
       \<and> (\<forall>k. k = ''idsite'' \<or> k = ''rec''
              \<or> map_of (objects (final out) r) k = map_of (objects s1 r) k)"
    by (rule sent_injected)
  with bare show ?thesis by blast
qed



lemma disj3_elim: "P \<or> Q \<or> R \<Longrightarrow> \<not> P \<Longrightarrow> \<not> Q \<Longrightarrow> R"
  by blast

text \<open>
  The theorem at a call of \<open>track\<close> whose options already name another site and
  another \<open>rec\<close>.
\<close>

theorem track_injects_idsite_and_rec_witness:
  "canonical (Options 0)
      (store_of [[(''url'', Str ''http://mywebsite.com/''), (''idsite'', Num (Integer 99)),
                  (''rec'', Str ''no'')]])
     = (Options 0,
        store_of [[(''url'', Str ''http://mywebsite.com/''), (''idsite'', Num (Integer 99)),
                   (''rec'', Str ''no'')]])
   \<and> requests (track example_host example_tracker (answers 200 0)
        (store_of [[(''url'', Str ''http://mywebsite.com/''), (''idsite'', Num (Integer 99)),
                    (''rec'', Str ''no'')]]) (Options 0)) \<noteq> []
   \<and> get_prop ''idsite'' (objects (final (track example_host example_tracker (answers 200 0)
        (store_of [[(''url'', Str ''http://mywebsite.com/''), (''idsite'', Num (Integer 99)),
                    (''rec'', Str ''no'')]]) (Options 0))) 0) = Num (Integer 1)
   \<and> get_prop ''rec'' (objects (final (track example_host example_tracker (answers 200 0)
        (store_of [[(''url'', Str ''http://mywebsite.com/''), (''idsite'', Num (Integer 99)),
                    (''rec'', Str ''no'')]]) (Options 0))) 0) = Num (Integer 1)
   \<and> map_of (objects (final (track example_host example_tracker (answers 200 0)
        (store_of [[(''url'', Str ''http://mywebsite.com/''), (''idsite'', Num (Integer 99)),
                    (''rec'', Str ''no'')]]) (Options 0))) 0) ''url''
       = Some (Str ''http://mywebsite.com/'')"
proof -
  define s :: "num heap" where
    "s = store_of [[(''url'', Str ''http://mywebsite.com/''), (''idsite'', Num (Integer 99)),
                    (''rec'', Str ''no'')]]"
  define out where "out = track example_host example_tracker (answers 200 0) s (Options 0)"
  have h1: "canonical (Options 0) s = (Options 0, s)"
    by (rule canonical_Options)
  have h2: "out = track example_host example_tracker (answers 200 0) s (Options 0)
            \<or> out = legacy_track example_host example_tracker (answers 200 0) s (Options 0)
            \<or> out = trackUrl example_host example_tracker (answers 200 0) s (Options 0)"
    unfolding out_def by (rule disjI1) (rule refl)
  have h3: "requests out \<noteq> []"
    unfolding out_def track_Options dispatch_requests by (rule list.distinct(2))
  have url: "map_of (objects s 0) ''url'' = Some (Str ''http://mywebsite.com/'')"
    unfolding s_def by code_simp
  have sid: "Num (siteId example_tracker) = Num (Integer 1)" and one: "Num (1::num) = Num (Integer 1)"
    by code_simp+
  have ne: "''url'' \<noteq> ''idsite''" "''url'' \<noteq> ''rec''"
    by code_simp+
  note inst = track_injects_idsite_and_rec[OF h1 h2 h3]
  have c1: "get_prop ''idsite'' (objects (final out) 0) = Num (siteId example_tracker)"
    using inst by (elim conjE)
  have c2: "get_prop ''rec'' (objects (final out) 0) = Num 1"
    using inst by (elim conjE)
  have c3: "\<forall>k. k = ''idsite'' \<or> k = ''rec''
              \<or> map_of (objects (final out) 0) k = map_of (objects s 0) k"
    using inst by (elim conjE)
  from c3 have "''url'' = ''idsite'' \<or> ''url'' = ''rec''
          \<or> map_of (objects (final out) 0) ''url'' = map_of (objects s 0) ''url''"
    by (rule spec)
  then have "map_of (objects (final out) 0) ''url'' = map_of (objects s 0) ''url''"
    by (rule disj3_elim) (rule ne)+
  then have u: "map_of (objects (final out) 0) ''url'' = Some (Str ''http://mywebsite.com/'')"
    using url by (rule trans)
  have "canonical (Options 0) s = (Options 0, s)
      \<and> requests out \<noteq> []
      \<and> get_prop ''idsite'' (objects (final out) 0) = Num (Integer 1)
      \<and> get_prop ''rec'' (objects (final out) 0) = Num (Integer 1)
      \<and> map_of (objects (final out) 0) ''url'' = Some (Str ''http://mywebsite.com/'')"
    using h1 h3 c1 c2 u unfolding sid one by (intro conjI)
  then show ?thesis unfolding out_def s_def .
qed

subsection \<open>Failed deliveries\<close>

lemma dispatch_failure:
  "(\<forall>resp. fetch e req = Responds resp \<and> \<not> ok resp \<longrightarrow>
        result (dispatch e s req) = Resolved None
      \<and> emitted (dispatch e s req)
          = (if listeners e = 0 then [] else [(''error'', JNumber (status resp))]))
 \<and> (\<forall>msg. fetch e req = Throws msg \<longrightarrow>
        result (dispatch e s req) = Resolved None
      \<and> emitted (dispatch e s req)
          = (if listeners e = 0 then [] else [(''error'', JString msg)]))"
  by (simp add: dispatch_def emit_error_def)

lemma legacy_dispatch_failure:
  "(\<forall>resp. fetch e req = Responds resp \<and> \<not> ok resp \<longrightarrow>
        result (legacy_dispatch e s cb req) = Resolved None
      \<and> emitted (legacy_dispatch e s cb req)
          = (if listeners e = 0 then [] else [(''error'', JNumber (status resp))]))
 \<and> (\<forall>msg. fetch e req = Throws msg \<longrightarrow>
        result (legacy_dispatch e s cb req) = Resolved None
      \<and> emitted (legacy_dispatch e s cb req)
          = (if listeners e = 0 then [] else [(''error'', JString msg)]))"
  by (simp add: legacy_dispatch_def emit_error_def)

lemma track_shape:
  "(\<exists>s' req'. track h t e s opts = dispatch e s' req')
   \<or> (\<exists>s' err. track h t e s opts = rejected s' err)"
  by (cases opts) (auto simp: track_def Let_def)

lemma legacy_track_shape:
  "(\<exists>s' req'. legacy_track h t e s opts = dispatch e s' req')
   \<or> (\<exists>s' err. legacy_track h t e s opts = rejected s' err)"
  by (auto simp: legacy_track_def Let_def split: prod.splits options.splits)

lemma trackBulk_shape:
  "(\<exists>s' req'. trackBulk h t e s items = dispatch e s' req')
   \<or> (\<exists>s' err. trackBulk h t e s items = rejected s' err)"
  by (auto simp: trackBulk_def Let_def split: prod.splits option.splits)

lemma legacy_trackBulk_shape:
  "(\<exists>s' req'. legacy_trackBulk h t e s items cb = legacy_dispatch e s' cb req')
   \<or> (\<exists>s' err. legacy_trackBulk h t e s items cb = rejected s' err)"
  by (auto simp: legacy_trackBulk_def Let_def split: prod.splits option.splits)

text \<open>
  Claim C2. Once \<open>track\<close> or \<open>trackBulk\<close> (of either file) has passed its request to
  \<open>fetch\<close>: when the response is not ok, or \<open>fetch\<close> throws, the call resolves with
  \<open>undefined\<close> (it is not rejected), and it emits exactly one \<open>error\<close> event if there
  is a listener, with the status of the response or the message of the error, and no
  event if there is none.
\<close>

theorem delivery_failure_goes_to_listeners:
  assumes "out = track h t e s opts \<or> out = legacy_track h t e s opts
         \<or> out = trackBulk h t e s items \<or> out = legacy_trackBulk h t e s items cb"
    and "requests out = [req]"
  shows "(\<forall>resp. fetch e req = Responds resp \<and> \<not> ok resp \<longrightarrow>
            result out = Resolved None
          \<and> emitted out = (if listeners e = 0 then [] else [(''error'', JNumber (status resp))]))
       \<and> (\<forall>msg. fetch e req = Throws msg \<longrightarrow>
            result out = Resolved None
          \<and> emitted out = (if listeners e = 0 then [] else [(''error'', JString msg)]))"
proof -
  have "(\<exists>s' req'. out = dispatch e s' req') \<or> (\<exists>s' req'. out = legacy_dispatch e s' cb req')
        \<or> (\<exists>s' err. out = rejected s' err)"
    using assms(1) track_shape[of h t e s opts] legacy_track_shape[of h t e s opts]
      trackBulk_shape[of h t e s items] legacy_trackBulk_shape[of h t e s items cb]
    by metis
  then consider (d) s' req' where "out = dispatch e s' req'"
    | (l) s' req' where "out = legacy_dispatch e s' cb req'"
    | (r) s' err where "out = rejected s' err"
    by blast
  then show ?thesis
  proof cases
    case d
    with assms(2) have "req' = req" by (simp add: dispatch_requests)
    with d have "out = dispatch e s' req" by simp
    then show ?thesis using dispatch_failure[of e req s'] by blast
  next
    case l
    with assms(2) have "req' = req" by (simp add: legacy_dispatch_requests)
    with l have "out = legacy_dispatch e s' cb req" by simp
    then show ?thesis using legacy_dispatch_failure[of e req s' cb] by blast
  next
    case r
    with assms(2) show ?thesis by (simp add: rejected_simps)
  qed
qed

text \<open>
  The theorem at a 404 answer with one listener, and the request that \<open>track\<close> made.
\<close>

theorem delivery_failure_goes_to_listeners_witness:
  "requests (track example_host example_tracker (answers 404 1)
      (store_of [[(''url'', Str ''http://mywebsite.com/'')]]) (Options 0))
     = [GET ''http://example.com/matomo.php?url=http%3A%2F%2Fmywebsite.com%2F&idsite=1&rec=1'']
   \<and> fetch (answers 404 1)
        (GET ''http://example.com/matomo.php?url=http%3A%2F%2Fmywebsite.com%2F&idsite=1&rec=1'')
       = Responds \<lparr>ok = False, status = Integer 404, body_text = Inr []\<rparr>
   \<and> result (track example_host example_tracker (answers 404 1)
        (store_of [[(''url'', Str ''http://mywebsite.com/'')]]) (Options 0)) = Resolved None
   \<and> emitted (track example_host example_tracker (answers 404 1)
        (store_of [[(''url'', Str ''http://mywebsite.com/'')]]) (Options 0))
       = [(''error'', JNumber (Integer 404))]"
proof -
  define s :: "num heap" where "s = store_of [[(''url'', Str ''http://mywebsite.com/'')]]"
  define e :: "num env" where "e = answers 404 1"
  define out where "out = track example_host example_tracker e s (Options 0)"
  define req where
    "req = GET ''http://example.com/matomo.php?url=http%3A%2F%2Fmywebsite.com%2F&idsite=1&rec=1''"
  define resp :: "num response" where
    "resp = \<lparr>ok = False, status = Integer 404, body_text = Inr []\<rparr>"
  have h1: "out = track example_host example_tracker e s (Options 0)
            \<or> out = legacy_track example_host example_tracker e s (Options 0)
            \<or> out = trackBulk example_host example_tracker e s None
            \<or> out = legacy_trackBulk example_host example_tracker e s None False"
    unfolding out_def by (rule disjI1) (rule refl)
  have h2: "requests out = [req]"
    unfolding out_def req_def s_def e_def by code_simp
  have f: "fetch e req = Responds resp"
    unfolding e_def resp_def by (simp add: answers_def)
  have nk: "\<not> ok resp" unfolding resp_def by simp
  have st: "status resp = Integer 404" unfolding resp_def by simp
  have l: "listeners e \<noteq> 0" unfolding e_def by (simp add: answers_def)
  note inst = delivery_failure_goes_to_listeners[OF h1 h2]
  have "\<forall>resp. fetch e req = Responds resp \<and> \<not> ok resp \<longrightarrow>
            result out = Resolved None
          \<and> emitted out = (if listeners e = 0 then [] else [(''error'', JNumber (status resp))])"
    using inst by (elim conjE)
  then have "fetch e req = Responds resp \<and> \<not> ok resp \<longrightarrow>
            result out = Resolved None
          \<and> emitted out = (if listeners e = 0 then [] else [(''error'', JNumber (status resp))])"
    by (rule spec)
  with f nk have "result out = Resolved None
          \<and> emitted out = (if listeners e = 0 then [] else [(''error'', JNumber (status resp))])"
    by blast
  with l st have r: "result out = Resolved None \<and> emitted out = [(''error'', JNumber (Integer 404))]"
    by (simp only: if_False)
  have "requests out = [req] \<and> fetch e req = Responds resp
        \<and> result out = Resolved None \<and> emitted out = [(''error'', JNumber (Integer 404))]"
    using h2 f r by (intro conjI) (elim conjE, assumption)+
  then show ?thesis unfolding out_def req_def s_def e_def resp_def .
qed

subsection \<open>The request for a bare URL\<close>

lemma not_index_idsite: "\<not> is_array_index ''idsite''" and not_index_rec: "\<not> is_array_index ''rec''"
  and not_index_ca: "\<not> is_array_index ''ca''"
  by code_simp+

lemma insert_own_plain: "\<not> is_array_index k \<Longrightarrow> insert_own k v ps = ps @ [(k, v)]"
  by (induction ps) (auto simp: precedes_def)

lemma inject_url:
  "inject sid [(''url'', Str u)] = [(''url'', Str u), (''idsite'', Num sid), (''rec'', Num 1)]"
  by (simp add: inject_define define_own_def has_own_def precedes_def not_index_idsite
      not_index_rec)

lemma inject_empty: "inject sid [] = [(''idsite'', Num sid), (''rec'', Num 1)]"
  by (simp add: inject_define define_own_def has_own_def precedes_def not_index_idsite
      not_index_rec)



lemma strings_empty:
  "optionValuesToString h [(''idsite'', Num sid), (''rec'', Num r)]
     = [(''idsite'', NumberToString h sid), (''rec'', NumberToString h r)]"
  by (simp add: optionValuesToString_def assign_def define_own_def has_own_def precedes_def
      not_index_idsite not_index_rec)


lemma query_empty:
  "URLSearchParams_toString [(''idsite'', ''1''), (''rec'', ''1'')] = ''idsite=1&rec=1''"
  by code_simp



lemma example_url: "''http://example.com/matomo.php'' @ ''?'' @ ''url=http%3A%2F%2Fmywebsite.com%2F&idsite=1&rec=1''
   = ''http://example.com/matomo.php?url=http%3A%2F%2Fmywebsite.com%2F&idsite=1&rec=1''"
  by simp


lemma objects_alloc: "objects (snd (alloc ob s)) (next_ref s) = ob"
  by (simp add: alloc_def)






subsection \<open>The constructor\<close>

lemma endsWith_suffix: "endsWith s x \<longleftrightarrow> suffix x s"
proof
  assume "endsWith s x"
  then have "s = take (length s - length x) s @ x"
    by (metis append_take_drop_id endsWith_def)
  then show "suffix x s" by (metis suffixI)
next
  assume "suffix x s"
  then obtain ys where "s = ys @ x" by (auto simp: suffix_def)
  then show "endsWith s x" by (simp add: endsWith_def)
qed

lemma typeof_number: "typeof v = ''number'' \<longleftrightarrow> (\<exists>n. v = JNumber n)"
  by (cases v) simp_all

lemma typeof_string: "typeof v = ''string'' \<longleftrightarrow> (\<exists>x. v = JString x)"
  by (cases v) simp_all

lemma MatomoTracker_cases:
  "MatomoTracker h sid turl flag =
     (if claimed_failure h sid turl flag \<or> falsy_identifier h sid
      then Inl (Invariant
        (if \<not> (ToBoolean h sid \<and> (typeof sid = ''number'' \<or> typeof sid = ''string''))
         then ''Matomo siteId required.''
         else if \<not> (ToBoolean h turl \<and> typeof turl = ''string'')
         then ''Matomo tracker URL required, e.g. http://example.com/matomo.php''
         else suffix_message))
      else Inr \<lparr>siteId = the (Number_of h sid),
                trackerUrl = (case turl of JString u \<Rightarrow> u | _ \<Rightarrow> [])\<rparr>)"
  by (cases sid; cases turl)
     (simp_all add: MatomoTracker_def claimed_failure_def falsy_identifier_def endsWith_suffix)

lemma legacy_MatomoTracker_cases:
  "legacy_MatomoTracker h sid turl flag =
     (if claimed_failure h sid turl flag \<or> falsy_identifier h sid
      then Inl (AssertionError
        (if \<not> (ToBoolean h sid \<and> (typeof sid = ''number'' \<or> typeof sid = ''string''))
         then ''Matomo siteId required.''
         else if \<not> (ToBoolean h turl \<and> typeof turl = ''string'')
         then ''Matomo tracker URL required, e.g. http://example.com/matomo.php''
         else suffix_message))
      else Inr \<lparr>siteId = the (Number_of h sid),
                trackerUrl = (case turl of JString u \<Rightarrow> u | _ \<Rightarrow> []),
                usesHTTPS = startsWith (case turl of JString u \<Rightarrow> u | _ \<Rightarrow> []) ''https''\<rparr>)"
  by (cases sid; cases turl)
     (simp_all add: legacy_MatomoTracker_def claimed_failure_def falsy_identifier_def
        endsWith_suffix)

lemma accepted_arguments:
  assumes "\<not> (claimed_failure h sid turl flag \<or> falsy_identifier h sid)"
  shows "\<exists>n u. Number_of h sid = Some n \<and> turl = JString u"
  using assms
  by (cases sid; cases turl) (simp_all add: claimed_failure_def falsy_identifier_def)

text \<open>
  Claim C6, as stated, fails: the site identifier 0 is a number and is not missing, the
  endpoint is a non-empty string with the right suffix, and the constructor throws.
\<close>

theorem zero_site_identifier_is_rejected:
  "MatomoTracker example_host (JNumber 0) (JString ''http://example.com/matomo.php'') JUndefined
     = Inl (Invariant ''Matomo siteId required.'')
   \<and> legacy_MatomoTracker example_host (JNumber 0) (JString ''http://example.com/matomo.php'')
       JUndefined
     = Inl (AssertionError ''Matomo siteId required.'')
   \<and> \<not> claimed_failure example_host (JNumber 0) (JString ''http://example.com/matomo.php'')
         JUndefined"
  by code_simp

text \<open>
  Claim C6, amended. The constructor of either class throws, and what it throws is the
  error of a failed argument check, if and only if the specification's condition holds
  or the site identifier is a falsy number or string (0, NaN, the empty string).
  Otherwise it returns the tracker whose \<open>siteId\<close> is \<open>Number(siteId)\<close> and whose
  \<open>trackerUrl\<close> is the endpoint.
\<close>

theorem constructor_contract:
  "((\<exists>err. MatomoTracker h sid turl flag = Inl err)
      \<longleftrightarrow> claimed_failure h sid turl flag \<or> falsy_identifier h sid)
   \<and> (\<forall>err. MatomoTracker h sid turl flag = Inl err \<longrightarrow> (\<exists>msg. err = Invariant msg))
   \<and> (\<forall>t. MatomoTracker h sid turl flag = Inr t
          \<longrightarrow> Number_of h sid = Some (siteId t) \<and> turl = JString (trackerUrl t))
   \<and> ((\<exists>err. legacy_MatomoTracker h sid turl flag = Inl err)
      \<longleftrightarrow> claimed_failure h sid turl flag \<or> falsy_identifier h sid)
   \<and> (\<forall>err. legacy_MatomoTracker h sid turl flag = Inl err
          \<longrightarrow> (\<exists>msg. err = AssertionError msg))
   \<and> (\<forall>t. legacy_MatomoTracker h sid turl flag = Inr t
          \<longrightarrow> Number_of h sid = Some (siteId t) \<and> turl = JString (trackerUrl t))"
proof (cases "claimed_failure h sid turl flag \<or> falsy_identifier h sid")
  case True
  then show ?thesis
    by (simp add: MatomoTracker_cases legacy_MatomoTracker_cases)
next
  case False
  from accepted_arguments[OF False] obtain n u
    where "Number_of h sid = Some n" "turl = JString u" by blast
  with False show ?thesis
    by (simp add: MatomoTracker_cases legacy_MatomoTracker_cases)
qed

text \<open>
  The theorem at the identifier \<open>'siteId'\<close> of the repository's tests: the constructor
  does not throw, and the number it stores is NaN.
\<close>

theorem constructor_contract_witness:
  "\<not> (claimed_failure example_host (JString ''siteId'')
          (JString ''http://example.com/matomo.php'') JUndefined
        \<or> falsy_identifier example_host (JString ''siteId''))
   \<and> \<not> (\<exists>err. MatomoTracker example_host (JString ''siteId'')
               (JString ''http://example.com/matomo.php'') JUndefined = Inl err)
   \<and> MatomoTracker example_host (JString ''siteId'')
          (JString ''http://example.com/matomo.php'') JUndefined
       = Inr \<lparr>siteId = NaN, trackerUrl = ''http://example.com/matomo.php''\<rparr>"
proof -
  define sid :: "num jsval" where "sid = JString ''siteId''"
  define turl :: "num jsval" where "turl = JString ''http://example.com/matomo.php''"
  have c: "\<not> (claimed_failure example_host sid turl JUndefined
             \<or> falsy_identifier example_host sid)"
    unfolding sid_def turl_def by code_simp
  have v: "MatomoTracker example_host sid turl JUndefined
             = Inr \<lparr>siteId = NaN, trackerUrl = ''http://example.com/matomo.php''\<rparr>"
    unfolding sid_def turl_def by code_simp
  note inst = constructor_contract[of example_host sid turl JUndefined]
  have "(\<exists>err. MatomoTracker example_host sid turl JUndefined = Inl err)
      \<longleftrightarrow> claimed_failure example_host sid turl JUndefined
          \<or> falsy_identifier example_host sid"
    using inst by (elim conjE)
  with c have n: "\<not> (\<exists>err. MatomoTracker example_host sid turl JUndefined = Inl err)"
    by blast
  from c n v show ?thesis unfolding sid_def turl_def by (intro conjI)
qed

subsection \<open>The site identifier of a constructed tracker\<close>

lemma trackBulk_rejection:
  "result (trackBulk h t e s items) = Rejected err \<Longrightarrow>
     err = Invariant ''Events require at least one.'' \<and> (items = None \<or> items = Some [])"
  by (auto simp: trackBulk_def rejected_def dispatch_def Let_def
      split: option.splits if_splits prod.splits fetch_result.splits)

lemma legacy_trackBulk_rejection:
  "result (legacy_trackBulk h t e s items cb) = Rejected err \<Longrightarrow>
     err = AssertionError ''Events require at least one.'' \<and> (items = None \<or> items = Some [])"
  by (auto simp: legacy_trackBulk_def rejected_def legacy_dispatch_def Let_def
      split: option.splits if_splits prod.splits fetch_result.splits sum.splits)

text \<open>
  Claim C10. The \<open>siteId\<close> of a tracker that either constructor returned is the number
  \<open>Number(siteId)\<close>, a value that is neither \<open>undefined\<close> nor \<open>null\<close>. So the check
  \<open>siteId must be specified\<close> of \<open>trackBulk\<close> never fails on it: when \<open>trackBulk\<close>
  rejects, the error is that of the first check and the sequence of items is missing or
  empty.
\<close>

theorem constructed_siteId_is_a_number:
  assumes "MatomoTracker h sid turl flag = Inr t"
    and "legacy_MatomoTracker h sid turl flag = Inr t'"
  shows "Number_of h sid = Some (siteId t) \<and> typeof (JNumber (siteId t)) = ''number''
       \<and> JNumber (siteId t) \<noteq> JUndefined \<and> JNumber (siteId t) \<noteq> JNull
       \<and> (\<forall>e s items err. result (trackBulk h t e s items) = Rejected err \<longrightarrow>
             err = Invariant ''Events require at least one.''
             \<and> (items = None \<or> items = Some []))
       \<and> Number_of h sid = Some (siteId t') \<and> typeof (JNumber (siteId t')) = ''number''
       \<and> JNumber (siteId t') \<noteq> JUndefined \<and> JNumber (siteId t') \<noteq> JNull
       \<and> (\<forall>e s items cb err. result (legacy_trackBulk h t' e s items cb) = Rejected err \<longrightarrow>
             err = AssertionError ''Events require at least one.''
             \<and> (items = None \<or> items = Some []))"
proof -
  have a: "Number_of h sid = Some (siteId t)"
    using assms(1)
    by (auto simp: MatomoTracker_def split: if_splits jsval.splits option.splits)
  have b: "Number_of h sid = Some (siteId t')"
    using assms(2)
    by (auto simp: legacy_MatomoTracker_def split: if_splits jsval.splits option.splits)
  show ?thesis
    using a b trackBulk_rejection[of h t] legacy_trackBulk_rejection[of h t'] by simp
qed

text \<open>
  The theorem at the tracker of the repository's tests, with \<open>trackBulk([])\<close> as the call
  that is rejected.
\<close>

theorem constructed_siteId_is_a_number_witness:
  "MatomoTracker example_host (JNumber 1) (JString ''http://example.com/matomo.php'') JUndefined
     = Inr example_tracker
   \<and> legacy_MatomoTracker example_host (JNumber 1) (JString ''http://example.com/matomo.php'')
       JUndefined
     = Inr example_legacy_tracker
   \<and> Number_of example_host (JNumber 1) = Some (siteId example_tracker)
   \<and> result (trackBulk example_host example_tracker (answers 200 0) (store_of []) (Some []))
       = Rejected (Invariant ''Events require at least one.'')"
proof -
  have h1: "MatomoTracker example_host (JNumber 1) (JString ''http://example.com/matomo.php'')
              JUndefined = Inr example_tracker"
    by code_simp
  have h2: "legacy_MatomoTracker example_host (JNumber 1)
              (JString ''http://example.com/matomo.php'') JUndefined
            = Inr example_legacy_tracker"
    by code_simp
  have r: "result (trackBulk example_host example_tracker (answers 200 0) (store_of []) (Some []))
       = Rejected (Invariant ''Events require at least one.'')"
    by (simp add: trackBulk_def rejected_def)
  note inst = constructed_siteId_is_a_number[OF h1 h2]
  have n: "Number_of example_host (JNumber 1) = Some (siteId example_tracker)"
    using inst by (elim conjE)
  from h1 h2 n r show ?thesis by (intro conjI)
qed

subsection \<open>Calls without a URL\<close>

lemma url_is_required_elsewhere:
  assumes "opts = Missing \<or> (\<exists>r. opts = Options r \<and> get_prop ''url'' (objects s r) = Undef)"
  shows "trackUrl h t e s opts = rejected s (Invariant ''URL to be tracked must be specified.'')"
    and "legacy_track h t e s opts
           = rejected s (AssertionError ''URL to be tracked must be specified.'')"
  using assms
  by (auto simp: trackUrl_def legacy_track_def canonical_def has_truthy_def truthy_def)

text \<open>
  Claim C3 at \<open>track({})\<close> on the tracker of the tests. \<open>track\<close> of \<open>src/index.ts\<close> has
  no check of the URL: it passes a request without \<open>url\<close> to \<open>fetch\<close> and resolves with
  the response. Without an argument it is rejected, by the \<open>TypeError\<close> of the assignment
  to \<open>options.idsite\<close>. (\<open>trackUrl\<close> and \<open>track\<close> of \<open>index.ts\<close> reject both calls with
  the message about the URL: \<open>url_is_required_elsewhere\<close>.)
\<close>

theorem track_without_url_is_sent:
  "requests (track example_host example_tracker (answers 200 0) (store_of [[]]) (Options 0))
     = [GET ''http://example.com/matomo.php?idsite=1&rec=1'']
   \<and> result (track example_host example_tracker (answers 200 0) (store_of [[]]) (Options 0))
     = Resolved (Some \<lparr>ok = True, status = Integer 200, body_text = Inr []\<rparr>)
   \<and> track example_host example_tracker (answers 200 0) (store_of []) Missing
     = rejected (store_of []) TypeError"
proof -
  have a: "requests (track example_host example_tracker (answers 200 0) (store_of [[]])
             (Options 0))
           = [GET ''http://example.com/matomo.php?idsite=1&rec=1'']"
    by code_simp
  have b: "result (track example_host example_tracker (answers 200 0) (store_of [[]])
             (Options 0))
           = Resolved (Some \<lparr>ok = True, status = Integer 200, body_text = Inr []\<rparr>)"
    by code_simp
  have c: "track example_host example_tracker (answers 200 0) (store_of []) Missing
             = rejected (store_of []) TypeError"
    by (simp add: track_def)
  from a b c show ?thesis by (intro conjI)
qed

subsection \<open>Which keys are serialized\<close>

lemma map_of_assign:
  "map_of (assign k0 x acc) k =
     (if k0 = ''__proto__'' \<and> \<not> has_own k0 acc then map_of acc k
      else if k = k0 then Some x else map_of acc k)"
  by (auto simp: assign_def map_of_define_own)

lemma reduce_lookup:
  assumes "distinct (map fst ob)" and "map_of acc ''__proto__'' = None"
  shows "map_of (foldl (\<lambda>acc (key, val).
            if val \<noteq> Undef then assign key (String_of h val) acc else acc) acc ob) k
         = (case map_of ob k of
              None \<Rightarrow> map_of acc k
            | Some v \<Rightarrow> if v = Undef \<or> k = ''__proto__'' then map_of acc k
                        else Some (String_of h v))"
  using assms
proof (induction ob arbitrary: acc)
  case Nil
  show ?case by simp
next
  case (Cons p ob)
  obtain k0 v0 where p: "p = (k0, v0)" by (cases p)
  let ?acc = "if v0 \<noteq> Undef then assign k0 (String_of h v0) acc else acc"
  have d: "distinct (map fst ob)" and notin: "map_of ob k0 = None"
    using Cons.prems(1) p by (auto simp: map_of_eq_None_iff)
  have pr: "map_of ?acc ''__proto__'' = None"
    using Cons.prems(2) by (simp add: map_of_assign has_own_def)
  show ?case
    using Cons.IH[OF d pr] notin Cons.prems(2)
    by (auto simp: p map_of_assign has_own_def split: option.splits)
qed

lemma optionValuesToString_lookup:
  assumes "distinct (map fst ob)"
  shows "map_of (optionValuesToString h ob) k
         = (case map_of ob k of
              None \<Rightarrow> None
            | Some v \<Rightarrow> if v = Undef \<or> k = ''__proto__'' then None
                        else Some (String_of h v))"
  unfolding optionValuesToString_def using reduce_lookup[OF assms, of "[]" h k]
  by (simp split: option.splits)

text \<open>
  Claim C7 at the options \<open>{"__proto__": "x", url: "http://mywebsite.com/"}\<close> (what
  \<open>JSON.parse\<close> returns for this text, or an object literal with the computed key). The
  key \<open>__proto__\<close> has a defined string value and does not reach the query string: the
  assignment \<open>acc[key] = String(value)\<close> to the accumulator \<open>{}\<close> calls the setter of
  \<open>Object.prototype\<close>, which ignores a string. (For every other key of an object the claim
  holds: \<open>optionValuesToString_lookup\<close>.)
\<close>

theorem proto_key_is_dropped:
  "optionValuesToString example_host
       [(''__proto__'', Str ''x''), (''url'', Str ''http://mywebsite.com/'')]
     = [(''url'', ''http://mywebsite.com/'')]
   \<and> requests (track example_host example_tracker (answers 200 0)
        (store_of [[(''__proto__'', Str ''x''), (''url'', Str ''http://mywebsite.com/'')]])
        (Options 0))
     = [GET ''http://example.com/matomo.php?url=http%3A%2F%2Fmywebsite.com%2F&idsite=1&rec=1'']"
proof -
  have a: "optionValuesToString example_host
       [(''__proto__'', Str ''x''), (''url'', Str ''http://mywebsite.com/'')]
     = [(''url'', ''http://mywebsite.com/'')]"
    by code_simp
  have b: "requests (track example_host example_tracker (answers 200 0)
        (store_of [[(''__proto__'', Str ''x''), (''url'', Str ''http://mywebsite.com/'')]])
        (Options 0))
     = [GET ''http://example.com/matomo.php?url=http%3A%2F%2Fmywebsite.com%2F&idsite=1&rec=1'']"
    by code_simp
  from a b show ?thesis by (intro conjI)
qed

subsection \<open>Events and content\<close>

lemma get_prop_define_own: "get_prop k (define_own k v ps) = v"
  by (simp add: get_prop_def map_of_define_own)

lemma spread_lookup_acc:
  "distinct (map fst ps) \<Longrightarrow>
   map_of (foldl (\<lambda>acc (k, v). define_own k v acc) acc ps) = map_of acc ++ map_of ps"
proof (induction ps arbitrary: acc)
  case Nil
  show ?case by simp
next
  case (Cons p ps)
  obtain k v where p: "p = (k, v)" by (cases p)
  from Cons.prems p have d: "distinct (map fst ps)" and n: "map_of ps k = None"
    by (auto simp: map_of_eq_None_iff)
  have step: "foldl (\<lambda>acc (k, v). define_own k v acc) acc (p # ps)
              = foldl (\<lambda>acc (k, v). define_own k v acc) (define_own k v acc) ps"
    by (simp add: p)
  have tgt: "map_of acc ++ map_of (p # ps) = (map_of acc)(k \<mapsto> v) ++ map_of ps"
    using n by (auto simp: p fun_eq_iff map_add_def split: option.splits)
  show ?case
    unfolding step tgt by (simp only: Cons.IH[OF d] map_of_define_own)
qed

lemma map_of_spread: "distinct (map fst ps) \<Longrightarrow> map_of (spread ps) = map_of ps"
  by (simp add: spread_def spread_lookup_acc)

lemma has_truthy_Options:
  "has_truthy h s (Options r) k = truthy h (get_prop k (objects s r))"
  by (simp add: has_truthy_def)

lemma truthy_Undef: "\<not> truthy h Undef"
  by (simp add: truthy_def)

lemma track_custom_action_eq:
  "track_custom_action h t e s r =
     track h t e (snd (alloc (define_own ''ca'' (Num 1) (spread (objects s r))) s))
       (Options (next_ref s))"
  by (simp add: track_custom_action_def alloc_def)

text \<open>
  Claim C8, as stated, fails: an event whose category is present and is the empty string
  is rejected, not delegated.
\<close>

theorem empty_event_category_is_rejected:
  "get_prop ''e_c'' (objects (store_of [[(''e_c'', Str ''''), (''e_a'', Str ''click'')]]) 0)
     = (Str '''' :: num optval)
   \<and> get_prop ''e_a'' (objects (store_of [[(''e_c'', Str ''''), (''e_a'', Str ''click'')]]) 0)
     = (Str ''click'' :: num optval)
   \<and> trackEvent example_host example_tracker (answers 200 0)
        (store_of [[(''e_c'', Str ''''), (''e_a'', Str ''click'')]]) (Options 0)
     = rejected (store_of [[(''e_c'', Str ''''), (''e_a'', Str ''click'')]])
         (Invariant ''Event category and action must be specified.'')"
proof -
  have a: "get_prop ''e_c''
       (objects (store_of [[(''e_c'', Str ''''), (''e_a'', Str ''click'')]]) 0)
     = (Str '''' :: num optval)"
    by code_simp
  have b: "get_prop ''e_a''
       (objects (store_of [[(''e_c'', Str ''''), (''e_a'', Str ''click'')]]) 0)
     = (Str ''click'' :: num optval)"
    by code_simp
  have c: "trackEvent example_host example_tracker (answers 200 0)
        (store_of [[(''e_c'', Str ''''), (''e_a'', Str ''click'')]]) (Options 0)
     = rejected (store_of [[(''e_c'', Str ''''), (''e_a'', Str ''click'')]])
         (Invariant ''Event category and action must be specified.'')"
    unfolding trackEvent_def has_truthy_Options a by (simp add: truthy_def)
  from a b c show ?thesis by (intro conjI)
qed

text \<open>
  Claim C8, amended. \<open>trackEvent\<close> rejects, with no request made and the store as it was,
  when the options are missing or \<open>e_c\<close> or \<open>e_a\<close> is falsy: absent, the empty string,
  or a number that is 0 or NaN; \<open>trackContent\<close> does so for \<open>c_n\<close> and \<open>c_p\<close>. When both
  fields are truthy, the call is the call of \<open>track\<close> on a new object: the copy of the
  options with \<open>ca\<close> set to 1, which holds every other key of the options unchanged.
\<close>

theorem custom_action_contract:
  "(\<not> (has_truthy h s opts ''e_c'' \<and> has_truthy h s opts ''e_a'') \<longrightarrow>
       trackEvent h t e s opts
         = rejected s (Invariant ''Event category and action must be specified.''))
   \<and> (\<not> (has_truthy h s opts ''c_n'' \<and> has_truthy h s opts ''c_p'') \<longrightarrow>
       trackContent h t e s opts
         = rejected s (Invariant ''Content name and piece must be specified.''))
   \<and> (\<forall>k. \<not> has_truthy h s Missing k
          \<and> (\<forall>r. get_prop k (objects s r) = Undef \<longrightarrow> \<not> has_truthy h s (Options r) k))
   \<and> requests (rejected s err :: 'n outcome) = []
   \<and> (\<forall>r. opts = Options r \<and> truthy h (get_prop ''e_c'' (objects s r))
            \<and> truthy h (get_prop ''e_a'' (objects s r)) \<longrightarrow>
          trackEvent h t e s opts
            = track h t e (snd (alloc (define_own ''ca'' (Num 1) (spread (objects s r))) s))
                (Options (next_ref s)))
   \<and> (\<forall>r. opts = Options r \<and> truthy h (get_prop ''c_n'' (objects s r))
            \<and> truthy h (get_prop ''c_p'' (objects s r)) \<longrightarrow>
          trackContent h t e s opts
            = track h t e (snd (alloc (define_own ''ca'' (Num 1) (spread (objects s r))) s))
                (Options (next_ref s)))
   \<and> (\<forall>ob. objects (snd (alloc ob s)) (next_ref s) = ob)
   \<and> (\<forall>ob. get_prop ''ca'' (define_own ''ca'' (Num 1) (spread ob)) = (Num 1 :: 'n::one optval)
          \<and> (distinct (map fst ob) \<longrightarrow>
               (\<forall>k. k = ''ca''
                  \<or> map_of (define_own ''ca'' (Num (1 :: 'n)) (spread ob)) k = map_of ob k)))"
proof -
  have 1: "\<not> (has_truthy h s opts ''e_c'' \<and> has_truthy h s opts ''e_a'') \<longrightarrow>
       trackEvent h t e s opts
         = rejected s (Invariant ''Event category and action must be specified.'')"
    by (simp add: trackEvent_def)
  have 2: "\<not> (has_truthy h s opts ''c_n'' \<and> has_truthy h s opts ''c_p'') \<longrightarrow>
       trackContent h t e s opts
         = rejected s (Invariant ''Content name and piece must be specified.'')"
    by (simp add: trackContent_def)
  have 3: "\<forall>k. \<not> has_truthy h s Missing k
          \<and> (\<forall>r. get_prop k (objects s r) = Undef \<longrightarrow> \<not> has_truthy h s (Options r) k)"
    by (simp add: has_truthy_def truthy_Undef)
  have 4: "requests (rejected s err :: 'n outcome) = []"
    by (simp add: rejected_def)
  have 5: "\<forall>r. opts = Options r \<and> truthy h (get_prop ''e_c'' (objects s r))
            \<and> truthy h (get_prop ''e_a'' (objects s r)) \<longrightarrow>
          trackEvent h t e s opts
            = track h t e (snd (alloc (define_own ''ca'' (Num 1) (spread (objects s r))) s))
                (Options (next_ref s))"
    by (simp add: trackEvent_def has_truthy_Options track_custom_action_eq)
  have 6: "\<forall>r. opts = Options r \<and> truthy h (get_prop ''c_n'' (objects s r))
            \<and> truthy h (get_prop ''c_p'' (objects s r)) \<longrightarrow>
          trackContent h t e s opts
            = track h t e (snd (alloc (define_own ''ca'' (Num 1) (spread (objects s r))) s))
                (Options (next_ref s))"
    by (simp add: trackContent_def has_truthy_Options track_custom_action_eq)
  have 7: "\<forall>ob. objects (snd (alloc ob s)) (next_ref s) = ob"
    by (simp add: objects_alloc)
  have 8: "\<forall>ob. get_prop ''ca'' (define_own ''ca'' (Num 1) (spread ob)) = (Num 1 :: 'n optval)
          \<and> (distinct (map fst ob) \<longrightarrow>
               (\<forall>k. k = ''ca''
                  \<or> map_of (define_own ''ca'' (Num (1 :: 'n)) (spread ob)) k = map_of ob k))"
    by (simp add: get_prop_define_own map_of_define_own map_of_spread)
  from 1 2 3 4 5 6 7 8 show ?thesis by (intro conjI)
qed

text \<open>
  The theorem at \<open>trackEvent({e_c: "Buy", e_a: "rightButton"})\<close>, and the request the
  delegated call makes.
\<close>

theorem custom_action_contract_witness:
  "truthy example_host
     (get_prop ''e_c'' (objects (store_of [[(''e_c'', Str ''Buy''), (''e_a'', Str ''rightButton'')]]) 0))
   \<and> truthy example_host
     (get_prop ''e_a'' (objects (store_of [[(''e_c'', Str ''Buy''), (''e_a'', Str ''rightButton'')]]) 0))
   \<and> trackEvent example_host example_tracker (answers 200 0)
        (store_of [[(''e_c'', Str ''Buy''), (''e_a'', Str ''rightButton'')]]) (Options 0)
     = track example_host example_tracker (answers 200 0)
        (snd (alloc (define_own ''ca'' (Num 1)
            (spread (objects (store_of [[(''e_c'', Str ''Buy''), (''e_a'', Str ''rightButton'')]]) 0)))
          (store_of [[(''e_c'', Str ''Buy''), (''e_a'', Str ''rightButton'')]])))
        (Options (next_ref
          (store_of [[(''e_c'', Str ''Buy''), (''e_a'', Str ''rightButton'')]] :: num heap)))
   \<and> requests (trackEvent example_host example_tracker (answers 200 0)
        (store_of [[(''e_c'', Str ''Buy''), (''e_a'', Str ''rightButton'')]]) (Options 0))
     = [GET ''http://example.com/matomo.php?e_c=Buy&e_a=rightButton&ca=1&idsite=1&rec=1'']"
proof -
  define s :: "num heap" where
    "s = store_of [[(''e_c'', Str ''Buy''), (''e_a'', Str ''rightButton'')]]"
  define e :: "num env" where "e = answers 200 0"
  have h1: "truthy example_host (get_prop ''e_c'' (objects s 0))"
    unfolding s_def by code_simp
  have h2: "truthy example_host (get_prop ''e_a'' (objects s 0))"
    unfolding s_def by code_simp
  note inst = custom_action_contract[of example_host s "Options 0" example_tracker e TypeError]
  have "\<forall>r. Options 0 = Options r \<and> truthy example_host (get_prop ''e_c'' (objects s r))
            \<and> truthy example_host (get_prop ''e_a'' (objects s r)) \<longrightarrow>
          trackEvent example_host example_tracker e s (Options 0)
            = track example_host example_tracker e
                (snd (alloc (define_own ''ca'' (Num 1) (spread (objects s r))) s))
                (Options (next_ref s))"
    using inst by (elim conjE)
  then have "Options 0 = Options 0 \<and> truthy example_host (get_prop ''e_c'' (objects s 0))
            \<and> truthy example_host (get_prop ''e_a'' (objects s 0)) \<longrightarrow>
          trackEvent example_host example_tracker e s (Options 0)
            = track example_host example_tracker e
                (snd (alloc (define_own ''ca'' (Num 1) (spread (objects s 0))) s))
                (Options (next_ref s))"
    by (rule spec)
  with h1 h2 have d: "trackEvent example_host example_tracker e s (Options 0)
            = track example_host example_tracker e
                (snd (alloc (define_own ''ca'' (Num 1) (spread (objects s 0))) s))
                (Options (next_ref s))"
    by blast
  have q: "requests (trackEvent example_host example_tracker e s (Options 0))
     = [GET ''http://example.com/matomo.php?e_c=Buy&e_a=rightButton&ca=1&idsite=1&rec=1'']"
    unfolding s_def e_def by code_simp
  from h1 h2 d q have "truthy example_host (get_prop ''e_c'' (objects s 0))
      \<and> truthy example_host (get_prop ''e_a'' (objects s 0))
      \<and> trackEvent example_host example_tracker e s (Options 0)
            = track example_host example_tracker e
                (snd (alloc (define_own ''ca'' (Num 1) (spread (objects s 0))) s))
                (Options (next_ref s))
      \<and> requests (trackEvent example_host example_tracker e s (Options 0))
     = [GET ''http://example.com/matomo.php?e_c=Buy&e_a=rightButton&ca=1&idsite=1&rec=1'']"
    by (intro conjI)
  then show ?thesis unfolding s_def e_def .
qed

subsection \<open>The caller's objects\<close>

lemma bulk_final:
  "final (dispatch e (snd (bulk_queries h sid items s)) req)
     = s\<lparr>objects := (\<lambda>r. if r \<in> set items then inject sid (objects s r) else objects s r)\<rparr>"
  by (simp add: dispatch_final bulk_queries_eq)

lemma trackBulk_Some:
  "items \<noteq> [] \<Longrightarrow>
   trackBulk h t e s (Some items) =
     dispatch e (snd (bulk_queries h (siteId t) items s))
       (POST_json (trackerUrl t) (JSON_stringify_requests (fst (bulk_queries h (siteId t) items s))))"
  by (simp add: trackBulk_def split: prod.splits)

lemma legacy_trackBulk_Some:
  "items \<noteq> [] \<Longrightarrow>
   legacy_trackBulk h t e s (Some items) cb =
     legacy_dispatch e (snd (bulk_queries h (siteId t) items s)) cb
       (POST_json (trackerUrl t) (JSON_stringify_requests (fst (bulk_queries h (siteId t) items s))))"
  by (simp add: legacy_trackBulk_def split: prod.splits)

lemma legacy_track_Options:
  "legacy_track h t e s (Options r) =
     (if truthy h (get_prop ''url'' (objects s r))
      then dispatch e (write_obj r (inject (siteId t) (objects s r)) s)
             (GET (trackerUrl t @ ''?'' @ query_of h (inject (siteId t) (objects s r))))
      else rejected s (AssertionError ''URL to be tracked must be specified.''))"
  by (rule legacy_track_canonical) (rule canonical_Options)

text \<open>
  Claim C9, as stated, fails: \<open>track\<close> of \<open>index.ts\<close> rejects a mapping without \<open>url\<close>
  before it writes to it, and the caller's object has no \<open>idsite\<close> and no \<open>rec\<close> after
  the call.
\<close>

theorem rejected_call_leaves_options_as_they_were:
  "result (legacy_track example_host example_legacy_tracker (answers 200 0)
       (store_of [[(''action_name'', Str ''Home'')]]) (Options 0))
     = Rejected (AssertionError ''URL to be tracked must be specified.'')
   \<and> get_prop ''idsite'' (objects (final (legacy_track example_host example_legacy_tracker
        (answers 200 0) (store_of [[(''action_name'', Str ''Home'')]]) (Options 0))) 0) = Undef
   \<and> get_prop ''rec'' (objects (final (legacy_track example_host example_legacy_tracker
        (answers 200 0) (store_of [[(''action_name'', Str ''Home'')]]) (Options 0))) 0) = Undef"
proof -
  define s :: "num heap" where "s = store_of [[(''action_name'', Str ''Home'')]]"
  have u: "\<not> truthy example_host (get_prop ''url'' (objects s 0))"
    unfolding s_def by code_simp
  have r: "legacy_track example_host example_legacy_tracker (answers 200 0) s (Options 0)
             = rejected s (AssertionError ''URL to be tracked must be specified.'')"
    unfolding legacy_track_Options using u by simp
  have i: "get_prop ''idsite'' (objects s 0) = Undef" unfolding s_def by code_simp
  have c: "get_prop ''rec'' (objects s 0) = Undef" unfolding s_def by code_simp
  have "result (legacy_track example_host example_legacy_tracker (answers 200 0) s (Options 0))
     = Rejected (AssertionError ''URL to be tracked must be specified.'')
   \<and> get_prop ''idsite'' (objects (final (legacy_track example_host example_legacy_tracker
        (answers 200 0) s (Options 0))) 0) = Undef
   \<and> get_prop ''rec'' (objects (final (legacy_track example_host example_legacy_tracker
        (answers 200 0) s (Options 0))) 0) = Undef"
    unfolding r rejected_simps using i c by (intro conjI) simp_all
  then show ?thesis unfolding s_def .
qed

text \<open>
  Claim C9, amended. After a call of \<open>track\<close> or \<open>trackBulk\<close> that was not rejected for
  its arguments, whatever the network did, each object the caller passed in is, at its
  own address, the object it was with \<open>idsite\<close> set to the \<open>siteId\<close> of the tracker and
  \<open>rec\<close> set to 1, and the call allocated no object. (\<open>track\<close> of \<open>src/index.ts\<close> rejects
  no mapping; \<open>trackBulk\<close> rejects no sequence that has an item.)
\<close>

theorem options_are_written_in_place:
  assumes "out = track h t e s (Options r)
         \<or> (out = legacy_track h t e s (Options r) \<and> result out = Resolved res)
         \<or> (out = trackBulk h t e s (Some items) \<and> r \<in> set items)
         \<or> (out = legacy_trackBulk h t e s (Some items) cb \<and> r \<in> set items)"
  shows "objects (final out) r = inject (siteId t) (objects s r)
       \<and> get_prop ''idsite'' (objects (final out) r) = Num (siteId t)
       \<and> get_prop ''rec'' (objects (final out) r) = Num 1
       \<and> next_ref (final out) = next_ref s"
proof -
  have "objects (final out) r = inject (siteId t) (objects s r)
        \<and> next_ref (final out) = next_ref s"
    using assms
  proof (elim disjE conjE)
    assume "out = track h t e s (Options r)"
    then show ?thesis
      by (simp add: track_Options dispatch_final write_obj_def)
  next
    assume a: "out = legacy_track h t e s (Options r)" and b: "result out = Resolved res"
    show ?thesis
    proof (cases "truthy h (get_prop ''url'' (objects s r))")
      case True
      with a show ?thesis
        by (simp add: legacy_track_Options dispatch_final write_obj_def)
    next
      case False
      with a b show ?thesis
        by (simp add: legacy_track_Options rejected_simps)
    qed
  next
    assume a: "out = trackBulk h t e s (Some items)" and b: "r \<in> set items"
    from b have "items \<noteq> []" by auto
    with a b show ?thesis
      by (simp add: trackBulk_Some dispatch_final bulk_queries_eq)
  next
    assume a: "out = legacy_trackBulk h t e s (Some items) cb" and b: "r \<in> set items"
    from b have "items \<noteq> []" by auto
    with a b show ?thesis
      by (simp add: legacy_trackBulk_Some legacy_dispatch_final bulk_queries_eq)
  qed
  then show ?thesis by (simp add: get_prop_inject)
qed

text \<open>
  The theorem at a delivery that fails: \<open>fetch\<close> throws, nobody listens, and the caller's
  object has been written.
\<close>

theorem options_are_written_in_place_witness:
  "result (legacy_track example_host example_legacy_tracker
       (unreachable ''getaddrinfo ENOTFOUND example.com'' 0)
       (store_of [[(''url'', Str ''http://mywebsite.com/'')]]) (Options 0)) = Resolved None
   \<and> objects (final (legacy_track example_host example_legacy_tracker
       (unreachable ''getaddrinfo ENOTFOUND example.com'' 0)
       (store_of [[(''url'', Str ''http://mywebsite.com/'')]]) (Options 0))) 0
     = [(''url'', Str ''http://mywebsite.com/''), (''idsite'', Num 1), (''rec'', Num 1)]
   \<and> get_prop ''idsite'' (objects (final (legacy_track example_host example_legacy_tracker
       (unreachable ''getaddrinfo ENOTFOUND example.com'' 0)
       (store_of [[(''url'', Str ''http://mywebsite.com/'')]]) (Options 0))) 0) = Num 1
   \<and> get_prop ''rec'' (objects (final (legacy_track example_host example_legacy_tracker
       (unreachable ''getaddrinfo ENOTFOUND example.com'' 0)
       (store_of [[(''url'', Str ''http://mywebsite.com/'')]]) (Options 0))) 0) = Num 1"
proof -
  define s :: "num heap" where "s = store_of [[(''url'', Str ''http://mywebsite.com/'')]]"
  define e :: "num env" where "e = unreachable ''getaddrinfo ENOTFOUND example.com'' 0"
  define out where "out = legacy_track example_host example_legacy_tracker e s (Options 0)"
  have res: "result out = Resolved None"
    unfolding out_def s_def e_def by code_simp
  have h: "out = track example_host example_legacy_tracker e s (Options 0)
         \<or> (out = legacy_track example_host example_legacy_tracker e s (Options 0)
              \<and> result out = Resolved None)
         \<or> (out = trackBulk example_host example_legacy_tracker e s (Some []) \<and> 0 \<in> set [])
         \<or> (out = legacy_trackBulk example_host example_legacy_tracker e s (Some []) False
              \<and> 0 \<in> set [])"
    using res out_def by blast
  note inst = options_are_written_in_place[OF h]
  have ob: "objects s 0 = [(''url'', Str ''http://mywebsite.com/'')]"
    unfolding s_def by code_simp
  have sid: "siteId example_legacy_tracker = 1"
    by (simp add: example_legacy_tracker_def)
  have a: "objects (final out) 0 = inject (siteId example_legacy_tracker) (objects s 0)"
    using inst by (elim conjE)
  have b: "get_prop ''idsite'' (objects (final out) 0) = Num (siteId example_legacy_tracker)"
    using inst by (elim conjE)
  have c: "get_prop ''rec'' (objects (final out) 0) = Num 1"
    using inst by (elim conjE)
  have "result out = Resolved None
      \<and> objects (final out) 0
          = [(''url'', Str ''http://mywebsite.com/''), (''idsite'', Num 1), (''rec'', Num 1)]
      \<and> get_prop ''idsite'' (objects (final out) 0) = Num 1
      \<and> get_prop ''rec'' (objects (final out) 0) = Num 1"
    using res a b c unfolding ob sid inject_url by (intro conjI)
  then show ?thesis unfolding out_def s_def e_def .
qed

subsection \<open>The bulk request\<close>

lemma JSON_quote_fragment_Cons:
  "JSON_quote (CHR ''?'' # query_of h ob) = CHR 0x22 # CHR ''?'' # query_of h ob @ [CHR 0x22]"
  using JSON_quote_fragment[of h ob] by simp

lemma JSON_stringify_fragments:
  \<open>JSON_stringify_requests (map (\<lambda>r. CHR ''?'' # query_of h (f r)) items)
     = ''{"requests":[''
       @ intercalate '',''
           (map (\<lambda>r. CHR 0x22 # CHR ''?'' # query_of h (f r) @ [CHR 0x22]) items)
       @ '']}''\<close>
  by (simp add: JSON_stringify_requests_def JSON_quote_fragment_Cons comp_def)

text \<open>
  Claim C4. For a sequence with at least one item, \<open>trackBulk\<close> (of either file) passes
  exactly one request to \<open>fetch\<close>: a POST to the endpoint with the header
  \<open>Content-Type: application/json\<close>, whose body is the JSON text of an object with the one
  key \<open>requests\<close> and the array of the fragments, one per item, in the order of the
  items. The fragment of an item is \<open>?\<close> and the query string of the item with
  \<open>idsite\<close> and \<open>rec\<close> written into it: the string that follows the endpoint in the URL
  that \<open>track\<close> requests for the same object. No character of a fragment is escaped in
  the JSON text.
\<close>

theorem trackBulk_posts_the_fragments:
  assumes \<open>items \<noteq> []\<close>
    and \<open>out = trackBulk h t e s (Some items) \<or> out = legacy_trackBulk h t e s (Some items) cb\<close>
  shows \<open>requests out
           = [\<lparr>http_method = ''POST'', url = trackerUrl t,
               headers = [(''Content-Type'', ''application/json'')],
               payload = Some (''{"requests":[''
                 @ intercalate '',''
                     (map (\<lambda>r. ''"?'' @ query_of h (inject (siteId t) (objects s r)) @ ''"'')
                        items)
                 @ '']}'')\<rparr>]
       \<and> (\<forall>r. requests (track h t e s (Options r))
               = [GET (trackerUrl t @ ''?'' @ query_of h (inject (siteId t) (objects s r)))])\<close>
proof -
  have t: "\<forall>r. requests (track h t e s (Options r))
               = [GET (trackerUrl t @ ''?'' @ query_of h (inject (siteId t) (objects s r)))]"
    by (simp add: track_Options dispatch_requests)
  have "requests out
          = [POST_json (trackerUrl t)
               (JSON_stringify_requests
                  (map (\<lambda>r. ''?'' @ query_of h (inject (siteId t) (objects s r))) items))]"
    using assms
    by (auto simp: trackBulk_Some legacy_trackBulk_Some dispatch_requests
        legacy_dispatch_requests bulk_queries_eq)
  then show ?thesis
    using t by (simp add: POST_json_def JSON_stringify_fragments)
qed

text \<open>
  The theorem at two events, the second with a character that the query string encodes.
\<close>

theorem trackBulk_posts_the_fragments_witness:
  \<open>[0, 1] \<noteq> ([] :: ref list)
   \<and> requests (trackBulk example_host example_tracker (answers 200 0)
        (store_of [[(''e_c'', Str ''Buy''), (''e_a'', Str ''rightButton''), (''e_v'', Str ''2'')],
                   [(''e_c'', Str ''Buy''), (''e_a'', Str ''left button'')]])
        (Some [0, 1]))
     = [\<lparr>http_method = ''POST'', url = ''http://example.com/matomo.php'',
         headers = [(''Content-Type'', ''application/json'')],
         payload = Some
           ''{"requests":["?e_c=Buy&e_a=rightButton&e_v=2&idsite=1&rec=1","?e_c=Buy&e_a=left+button&idsite=1&rec=1"]}''\<rparr>]\<close>
proof -
  define s :: "num heap" where
    "s = store_of [[(''e_c'', Str ''Buy''), (''e_a'', Str ''rightButton''), (''e_v'', Str ''2'')],
                   [(''e_c'', Str ''Buy''), (''e_a'', Str ''left button'')]]"
  define out where "out = trackBulk example_host example_tracker (answers 200 0) s (Some [0, 1])"
  have h1: "[0, 1] \<noteq> ([] :: ref list)" by simp
  have h2: "out = trackBulk example_host example_tracker (answers 200 0) s (Some [0, 1])
          \<or> out = legacy_trackBulk example_host example_tracker (answers 200 0) s (Some [0, 1])
                False"
    unfolding out_def by (rule disjI1) (rule refl)
  note inst = trackBulk_posts_the_fragments[OF h1 h2]
  have a: \<open>requests out
           = [\<lparr>http_method = ''POST'', url = trackerUrl example_tracker,
               headers = [(''Content-Type'', ''application/json'')],
               payload = Some (''{"requests":[''
                 @ intercalate '',''
                     (map (\<lambda>r. ''"?''
                        @ query_of example_host (inject (siteId example_tracker) (objects s r))
                        @ ''"'') [0, 1])
                 @ '']}'')\<rparr>]\<close>
    using inst by (elim conjE)
  have u: "trackerUrl example_tracker = ''http://example.com/matomo.php''"
    by (simp add: example_tracker_def)
  have b: \<open>''{"requests":[''
                 @ intercalate '',''
                     (map (\<lambda>r. ''"?''
                        @ query_of example_host (inject (siteId example_tracker) (objects s r))
                        @ ''"'') [0, 1])
                 @ '']}''
     = ''{"requests":["?e_c=Buy&e_a=rightButton&e_v=2&idsite=1&rec=1","?e_c=Buy&e_a=left+button&idsite=1&rec=1"]}''\<close>
    unfolding s_def by code_simp
  have \<open>[0, 1] \<noteq> ([] :: ref list)
   \<and> requests out
     = [\<lparr>http_method = ''POST'', url = ''http://example.com/matomo.php'',
         headers = [(''Content-Type'', ''application/json'')],
         payload = Some
           ''{"requests":["?e_c=Buy&e_a=rightButton&e_v=2&idsite=1&rec=1","?e_c=Buy&e_a=left+button&idsite=1&rec=1"]}''\<rparr>]\<close>
    using h1 a unfolding u b by (intro conjI)
  then show ?thesis unfolding out_def s_def .
qed

end
